theory Spec2Isabelle
  imports Complex_Main "HOL-Library.Sublist"
begin

section \<open>Team supply analysis (src/analysis/teamSupply.js)\<close>

text \<open>
  A shallow embedding of \<^verbatim>\<open>analyzeTeamSupply\<close>, \<^verbatim>\<open>analyzeWalletsWithTimeout\<close>,
  \<^verbatim>\<open>analyzeWallet\<close>, \<^verbatim>\<open>hasExcessiveTransactions\<close> and \<^verbatim>\<open>isFreshWallet\<close>.
  Raw balances and supplies are integers (base units). Categories, addresses and error
  messages are strings, as in the source. Thrown values are \<^verbatim>\<open>Error\<close> objects, identified
  by their message. Logging (\<^verbatim>\<open>logger\<close>, \<^verbatim>\<open>logStep\<close>) has no influence on any returned value
  and is left out.
\<close>

subsection \<open>Numbers: bignumber.js decimals and JavaScript numbers\<close>

text \<open>
  A \<^verbatim>\<open>BigNumber\<close> is an arbitrary-precision decimal, or one of the three non-finite values.
  Finite values are rationals here; every finite value the program builds is a decimal
  fraction.
\<close>

datatype BigNumber = BN rat | BN_Infinity | BN_NegInfinity | BN_NaN

text \<open>A JavaScript number: the rational value of a finite double, or a non-finite value.\<close>

datatype number = Num rat | Infinity | NegInfinity | NaN

text \<open>\<^verbatim>\<open>BigNumber.config({ DECIMAL_PLACES: 18, ROUNDING_MODE: BigNumber.ROUND_DOWN })\<close>\<close>

definition DECIMAL_PLACES :: nat where
  "DECIMAL_PLACES = 18"

text \<open>\<^verbatim>\<open>ROUND_DOWN\<close> rounds towards zero.\<close>

definition truncate_int :: "rat \<Rightarrow> int" where
  "truncate_int x = (if 0 \<le> x then \<lfloor>x\<rfloor> else \<lceil>x\<rceil>)"

definition ROUND_DOWN :: "rat \<Rightarrow> rat" where
  "ROUND_DOWN x = of_int (truncate_int (x * 10 ^ DECIMAL_PLACES)) / 10 ^ DECIMAL_PLACES"

text \<open>
  \<^verbatim>\<open>x.dividedBy(y)\<close>: the quotient, rounded to \<^verbatim>\<open>DECIMAL_PLACES\<close> with the rounding mode.
  A zero divisor gives \<^verbatim>\<open>NaN\<close> for a zero dividend and a signed infinity otherwise.
\<close>

fun dividedBy :: "BigNumber \<Rightarrow> BigNumber \<Rightarrow> BigNumber" where
  "dividedBy (BN x) (BN y) =
     (if y = 0 then (if x = 0 then BN_NaN else if 0 < x then BN_Infinity else BN_NegInfinity)
      else BN (ROUND_DOWN (x / y)))"
| "dividedBy BN_NaN _ = BN_NaN"
| "dividedBy _ BN_NaN = BN_NaN"
| "dividedBy (BN x) _ = BN 0"
| "dividedBy BN_Infinity (BN y) = (if 0 \<le> y then BN_Infinity else BN_NegInfinity)"
| "dividedBy BN_NegInfinity (BN y) = (if 0 \<le> y then BN_NegInfinity else BN_Infinity)"
| "dividedBy _ _ = BN_NaN"

text \<open>\<^verbatim>\<open>x.multipliedBy(y)\<close>: exact and unrounded for finite operands.\<close>

fun multipliedBy :: "BigNumber \<Rightarrow> BigNumber \<Rightarrow> BigNumber" where
  "multipliedBy (BN x) (BN y) = BN (x * y)"
| "multipliedBy BN_NaN _ = BN_NaN"
| "multipliedBy _ BN_NaN = BN_NaN"
| "multipliedBy (BN x) BN_Infinity =
     (if x = 0 then BN_NaN else if 0 < x then BN_Infinity else BN_NegInfinity)"
| "multipliedBy (BN x) BN_NegInfinity =
     (if x = 0 then BN_NaN else if 0 < x then BN_NegInfinity else BN_Infinity)"
| "multipliedBy BN_Infinity (BN y) =
     (if y = 0 then BN_NaN else if 0 < y then BN_Infinity else BN_NegInfinity)"
| "multipliedBy BN_NegInfinity (BN y) =
     (if y = 0 then BN_NaN else if 0 < y then BN_NegInfinity else BN_Infinity)"
| "multipliedBy BN_Infinity BN_Infinity = BN_Infinity"
| "multipliedBy BN_NegInfinity BN_NegInfinity = BN_Infinity"
| "multipliedBy _ _ = BN_NegInfinity"

text \<open>\<^verbatim>\<open>x.plus(y)\<close>: exact for finite operands.\<close>

fun plus_bn :: "BigNumber \<Rightarrow> BigNumber \<Rightarrow> BigNumber" where
  "plus_bn (BN x) (BN y) = BN (x + y)"
| "plus_bn BN_NaN _ = BN_NaN"
| "plus_bn _ BN_NaN = BN_NaN"
| "plus_bn BN_Infinity BN_NegInfinity = BN_NaN"
| "plus_bn BN_NegInfinity BN_Infinity = BN_NaN"
| "plus_bn BN_Infinity _ = BN_Infinity"
| "plus_bn _ BN_Infinity = BN_Infinity"
| "plus_bn _ _ = BN_NegInfinity"

text \<open>\<^verbatim>\<open>x.isGreaterThanOrEqualTo(y)\<close>: false whenever an operand is \<^verbatim>\<open>NaN\<close>.\<close>

fun isGreaterThanOrEqualTo :: "BigNumber \<Rightarrow> BigNumber \<Rightarrow> bool" where
  "isGreaterThanOrEqualTo (BN x) (BN y) = (y \<le> x)"
| "isGreaterThanOrEqualTo BN_NaN _ = False"
| "isGreaterThanOrEqualTo _ BN_NaN = False"
| "isGreaterThanOrEqualTo BN_Infinity _ = True"
| "isGreaterThanOrEqualTo _ BN_NegInfinity = True"
| "isGreaterThanOrEqualTo _ _ = False"

text \<open>
  \<^verbatim>\<open>x.toNumber()\<close> is \<^verbatim>\<open>+valueOf(x)\<close>: the decimal is converted to the nearest IEEE 754
  binary64 value, ties to even. \<open>bitLength n\<close> is the number of binary digits of \<open>n\<close>,
  \<open>binaryExponent x\<close> the \<open>e\<close> with \<open>2 ^ e \<le> x < 2 ^ (e + 1)\<close> for a positive \<open>x\<close>.
\<close>

function bitLength :: "int \<Rightarrow> int" where
  "bitLength n = (if n \<le> 0 then 0 else 1 + bitLength (n div 2))"
  by pat_completeness auto
termination
  by (relation "measure nat") auto

declare bitLength.simps [simp del]

definition pow2 :: "int \<Rightarrow> rat" where
  "pow2 e = (if 0 \<le> e then 2 ^ nat e else 1 / 2 ^ nat (- e))"

definition binaryExponent :: "rat \<Rightarrow> int" where
  "binaryExponent x =
     (if 1 \<le> x then bitLength \<lfloor>x\<rfloor> - 1
      else - bitLength (\<lceil>1 / x\<rceil> - 1))"

definition roundHalfEven :: "rat \<Rightarrow> int" where
  "roundHalfEven x =
     (let f = \<lfloor>x\<rfloor>; d = x - of_int f
      in if d < 1 / 2 then f else if 1 / 2 < d then f + 1 else if even f then f else f + 1)"

definition toDouble :: "rat \<Rightarrow> number" where
  "toDouble x =
     (if x = 0 then Num 0
      else
        let a = \<bar>x\<bar>;
            e = max (binaryExponent a) (- 1022);
            ulp = pow2 (e - 52);
            r = of_int (roundHalfEven (a / ulp)) * ulp
        in if pow2 1024 \<le> r then (if 0 < x then Infinity else NegInfinity)
           else Num (if 0 < x then r else - r))"

fun toNumber :: "BigNumber \<Rightarrow> number" where
  "toNumber (BN x) = toDouble x"
| "toNumber BN_Infinity = Infinity"
| "toNumber BN_NegInfinity = NegInfinity"
| "toNumber BN_NaN = NaN"

subsection \<open>Constants\<close>

definition KNOWN_LP_POOLS :: "string list" where
  "KNOWN_LP_POOLS =
     [''5Q544fKrFoe6tsEbD7S8EmxGTJYAKtTVhAW5Q5pge4j1'',
      ''6EF8rrecthR5Dkzon8Nwu78hRvfCKubJ14M5uBEwF6P'',
      ''MoonCVVNZFSYkqNXP6bxHLPL6QQJiMagDL3qcqUQTrG'',
      ''LBUZKhRxPF3XUpBCjp4YzTKgLccjZhTSDM9YuVaPwxo'',
      ''5quBtoiQqxF9Jv6KYKctB59NT3gtJD2Y65kdnB1Uev3h'',
      ''675kPX9MHTjS2zt1qfr1NYHuzeLXfQM9H24wFSUt1Mp8'',
      ''CPMMoo8L3F4NbTegBCKVNunggL7H1ZpdTHKxQB5qKP1C'',
      ''GpMZbSM2GgvTKHJirzeGfMFoaZ8UR2X7F4v8vHTvxFbL'']"

definition FRESH_WALLET_THRESHOLD :: nat where
  "FRESH_WALLET_THRESHOLD = 100"

definition SUPPLY_THRESHOLD :: BigNumber where
  "SUPPLY_THRESHOLD = BN (1 / 1000)"

definition BATCH_SIZE :: nat where
  "BATCH_SIZE = 5"

definition TEAM_WALLET_CATEGORIES :: "string list" where
  "TEAM_WALLET_CATEGORIES = [''Fresh'', ''Inactive'', ''No Token'', ''No ATA Transaction'']"

definition isTeamWalletCategory :: "string \<Rightarrow> bool" where
  "isTeamWalletCategory category = (category \<in> set TEAM_WALLET_CATEGORIES)"

subsection \<open>Holders and the significant-holder filter\<close>

text \<open>
  A holder as \<^verbatim>\<open>getHolders\<close> supplies it: an address and a raw balance in base units.
  \<^verbatim>\<open>new BigNumber(holder.balance)\<close> is that integer.
\<close>

record Holder =
  address :: string
  balance :: int

text \<open>The callback of \<^verbatim>\<open>allHolders.filter\<close> in step 3 of \<^verbatim>\<open>analyzeTeamSupply\<close>.\<close>

definition significantHolder :: "int \<Rightarrow> 'a Holder_scheme \<Rightarrow> bool" where
  "significantHolder total_supply holder =
     (if address holder \<in> set KNOWN_LP_POOLS then False
      else
        let rawBalance = BN (of_int (balance holder));
            percentage = dividedBy rawBalance (BN (of_int total_supply))
        in isGreaterThanOrEqualTo percentage SUPPLY_THRESHOLD)"

definition significantHolders :: "int \<Rightarrow> 'a Holder_scheme list \<Rightarrow> 'a Holder_scheme list" where
  "significantHolders total_supply allHolders = filter (significantHolder total_supply) allHolders"

subsection \<open>Awaited calls, cancellation polls and call traces\<close>

text \<open>
  The outcome of an awaited call inside one wallet's classification. \<open>Pending\<close>: the call
  has not settled when the wallet's timer (\<^verbatim>\<open>WALLET_ANALYSIS_TIMEOUT\<close>, 30000 ms, started by
  \<^verbatim>\<open>Promise.race\<close>) fires. Elapsed time is abstracted to this one event.
\<close>

datatype 'a outcome = Returns 'a | Throws string | Pending

definition WALLET_ANALYSIS_TIMEOUT :: nat where
  "WALLET_ANALYSIS_TIMEOUT = 30000"

text \<open>
  The places where the program calls \<^verbatim>\<open>cancellationToken.isCancelled()\<close>, each reached at most
  once in a run: the six \<^verbatim>\<open>checkCancellation()\<close> calls of \<^verbatim>\<open>analyzeTeamSupply\<close>, its
  \<^verbatim>\<open>catch\<close> block, the batch loop (by the batch's first index), the timeout wrapper and
  \<^verbatim>\<open>analyzeWallet\<close> (by the wallet's index). A token is what it answers at each of them.
  The parameter is optional in the source (\<^verbatim>\<open>cancellationToken = null\<close>).

  By source line: \<open>RunStart\<close> 82, \<open>AfterTokenInfo\<close> 102, \<open>AfterHolders\<close> 108,
  \<open>AfterFilter\<close> 124, \<open>BeforeTeamFilter\<close> 137, \<open>BeforeSupply\<close> 155, \<open>OnError\<close> 196,
  \<open>BeforeBatch\<close> 251, \<open>BeforeWallet\<close> 217, \<open>WalletStart\<close> 282, \<open>BeforeInactivity\<close> 309,
  \<open>BeforeFunding\<close> 339.
\<close>

datatype poll =
    RunStart | AfterTokenInfo | AfterHolders | AfterFilter
  | BeforeBatch nat
  | BeforeWallet nat | WalletStart nat | BeforeInactivity nat | BeforeFunding nat
  | BeforeTeamFilter | BeforeSupply
  | OnError

type_synonym CancellationToken = "poll \<Rightarrow> bool"

text \<open>\<^verbatim>\<open>cancellationToken && cancellationToken.isCancelled()\<close>\<close>

definition isCancelled :: "CancellationToken option \<Rightarrow> poll \<Rightarrow> bool" where
  "isCancelled cancellationToken p = (case cancellationToken of None \<Rightarrow> False | Some token \<Rightarrow> token p)"

definition cancelled_by_user :: string where
  "cancelled_by_user = ''Analysis cancelled by user''"

text \<open>
  The outbound calls one classification makes, in order. A \<open>task\<close> is an asynchronous
  computation as far as the timer lets it run: the calls it made and how it ended.
\<close>

datatype call =
    GetSignaturesForAddress string nat
  | CheckInactivityPeriod string string
  | AnalyzeFunding string

type_synonym 'a task = "call list \<times> 'a outcome"

text \<open>\<^verbatim>\<open>const v = await m; ... f(v)\<close>\<close>

definition andThen :: "'a task \<Rightarrow> ('a \<Rightarrow> 'b task) \<Rightarrow> 'b task" where
  "andThen m f =
     (case m of
        (cs, Returns v) \<Rightarrow> (case f v of (cs', r) \<Rightarrow> (cs @ cs', r))
      | (cs, Throws e) \<Rightarrow> (cs, Throws e)
      | (cs, Pending) \<Rightarrow> (cs, Pending))"

text \<open>\<^verbatim>\<open>s.includes(sub)\<close>\<close>

fun includes_str :: "string \<Rightarrow> string \<Rightarrow> bool" where
  "includes_str [] sub = (sub = [])"
| "includes_str (c # s) sub = (prefix sub (c # s) \<or> includes_str s sub)"

subsection \<open>Collaborators of one classification\<close>

text \<open>What \<^verbatim>\<open>checkInactivityPeriod\<close> resolves to, when it is not \<^verbatim>\<open>null\<close>.\<close>

record InactivityCheck =
  check_category :: "string option"
  isInactive :: bool
  check_daysSinceLastActivity :: "int option"

type_synonym details = "(string \<times> string) list"

text \<open>An element of the array \<^verbatim>\<open>analyzeFunding\<close> resolves to.\<close>

record FundingInfo =
  info_funderAddress :: "string option"
  info_fundingDetails :: "details option"

text \<open>
  What the collaborators do for one wallet: the number of signatures
  \<^verbatim>\<open>getSignaturesForAddress\<close> returns under each of the two limits, the inactivity check and
  the funding analysis (an empty list also stands for a \<^verbatim>\<open>null\<close> result).
\<close>

record Oracles =
  signatures1001 :: "nat outcome"
  signatures101 :: "nat outcome"
  inactivityCheck :: "InactivityCheck option outcome"
  fundingResult :: "FundingInfo list outcome"

text \<open>An analyzed wallet: the holder's fields (\<^verbatim>\<open>...wallet\<close>) and the classification.\<close>

record Wallet = Holder +
  category :: string
  daysSinceLastActivity :: "int option"
  funderAddress :: "string option"
  fundingDetails :: "details option"
  error :: "string option"

text \<open>\<^verbatim>\<open>x || null\<close> on an optional string: the empty string is falsy.\<close>

definition orNull :: "string option \<Rightarrow> string option" where
  "orNull x = (case x of None \<Rightarrow> None | Some s \<Rightarrow> if s = [] then None else Some s)"

text \<open>\<^verbatim>\<open>{ ...wallet, category, daysSinceLastActivity, funderAddress, fundingDetails }\<close>\<close>

definition classified ::
  "Holder \<Rightarrow> string \<Rightarrow> int option \<Rightarrow> string option \<Rightarrow> details option \<Rightarrow> Wallet" where
  "classified wallet c days funder fd =
     \<lparr>address = address wallet, balance = balance wallet, category = c,
      daysSinceLastActivity = days, funderAddress = funder, fundingDetails = fd, error = None\<rparr>"

text \<open>\<^verbatim>\<open>{ ...wallet, category: 'Error', error: error.message }\<close>\<close>

definition errorWallet :: "Holder \<Rightarrow> string \<Rightarrow> Wallet" where
  "errorWallet wallet message =
     \<lparr>address = address wallet, balance = balance wallet, category = ''Error'',
      daysSinceLastActivity = None, funderAddress = None, fundingDetails = None,
      error = Some message\<rparr>"

subsection \<open>\<^verbatim>\<open>hasExcessiveTransactions\<close> and \<^verbatim>\<open>isFreshWallet\<close>\<close>

definition hasExcessiveTransactions :: "Oracles \<Rightarrow> string \<Rightarrow> bool task" where
  "hasExcessiveTransactions oracles a =
     ([GetSignaturesForAddress a 1001],
      case signatures1001 oracles of
        Returns n \<Rightarrow> Returns (1000 \<le> n)
      | Throws e \<Rightarrow> Returns False
      | Pending \<Rightarrow> Pending)"

definition isFreshWallet :: "Oracles \<Rightarrow> string \<Rightarrow> bool task" where
  "isFreshWallet oracles a =
     ([GetSignaturesForAddress a (FRESH_WALLET_THRESHOLD + 1)],
      case signatures101 oracles of
        Returns n \<Rightarrow> Returns (n < FRESH_WALLET_THRESHOLD)
      | Throws e \<Rightarrow> Returns False
      | Pending \<Rightarrow> Pending)"

subsection \<open>\<^verbatim>\<open>analyzeWallet\<close>\<close>

text \<open>
  The inner \<^verbatim>\<open>try\<close>/\<^verbatim>\<open>catch\<close> around the inactivity check: it yields the category and
  \<^verbatim>\<open>daysSinceLastActivity\<close>. Its \<^verbatim>\<open>catch\<close> keeps both as they were, also for the cancellation
  error thrown inside this \<^verbatim>\<open>try\<close>.
\<close>

definition inactivityResult :: "InactivityCheck option \<Rightarrow> string \<times> int option" where
  "inactivityResult check =
     (case check of
        None \<Rightarrow> (''Normal'', None)
      | Some c \<Rightarrow>
          if check_category c = Some ''No Token'' then (''No Token'', None)
          else if check_category c = Some ''No ATA Transaction'' then (''No ATA Transaction'', None)
          else if isInactive c then (''Inactive'', check_daysSinceLastActivity c)
          else (''Normal'', None))"

definition inactivityStep ::
  "Oracles \<Rightarrow> CancellationToken option \<Rightarrow> nat \<Rightarrow> string \<Rightarrow> string \<Rightarrow> (string \<times> int option) task" where
  "inactivityStep oracles cancellationToken index a tokenAddress =
     (if isCancelled cancellationToken (BeforeInactivity index) then ([], Returns (''Normal'', None))
      else
        ([CheckInactivityPeriod a tokenAddress],
         case inactivityCheck oracles of
           Returns check \<Rightarrow> Returns (inactivityResult check)
         | Throws inactivityError \<Rightarrow> Returns (''Normal'', None)
         | Pending \<Rightarrow> Pending))"

text \<open>The \<^verbatim>\<open>try\<close>/\<^verbatim>\<open>catch\<close> around the funding analysis, and the final \<^verbatim>\<open>return\<close>.\<close>

definition fundingStep :: "Oracles \<Rightarrow> Holder \<Rightarrow> string \<Rightarrow> int option \<Rightarrow> Wallet task" where
  "fundingStep oracles wallet c days =
     ([AnalyzeFunding (address wallet)],
      case fundingResult oracles of
        Returns (fundingInfo # rest) \<Rightarrow>
          Returns (classified wallet c days
                     (orNull (info_funderAddress fundingInfo)) (info_fundingDetails fundingInfo))
      | Returns [] \<Rightarrow> Returns (classified wallet c days None None)
      | Throws fundingError \<Rightarrow> Returns (classified wallet c days None None)
      | Pending \<Rightarrow> Pending)"

text \<open>The body of the outer \<^verbatim>\<open>try\<close>.\<close>

definition analyzeWallet_try ::
  "Oracles \<Rightarrow> CancellationToken option \<Rightarrow> nat \<Rightarrow> string \<Rightarrow> Holder \<Rightarrow> Wallet task" where
  "analyzeWallet_try oracles cancellationToken index tokenAddress wallet =
     andThen (hasExcessiveTransactions oracles (address wallet)) (\<lambda>excessive.
       if excessive then ([], Returns (classified wallet ''Normal'' None None None))
       else
         andThen (isFreshWallet oracles (address wallet)) (\<lambda>isFresh.
           andThen
             (if isFresh then ([], Returns (''Fresh'', None))
              else inactivityStep oracles cancellationToken index (address wallet) tokenAddress)
             (\<lambda>(c, days).
                if isCancelled cancellationToken (BeforeFunding index)
                then ([], Throws cancelled_by_user)
                else fundingStep oracles wallet c days)))"

text \<open>The outer \<^verbatim>\<open>catch (error)\<close>.\<close>

definition analyzeWallet_catch :: "Holder \<Rightarrow> string \<Rightarrow> Wallet outcome" where
  "analyzeWallet_catch wallet message =
     (if includes_str message ''cancelled'' then Throws message
      else Returns (errorWallet wallet message))"

definition analyzeWallet ::
  "Oracles \<Rightarrow> CancellationToken option \<Rightarrow> nat \<Rightarrow> string \<Rightarrow> Holder \<Rightarrow> Wallet task" where
  "analyzeWallet oracles cancellationToken index tokenAddress wallet =
     (if isCancelled cancellationToken (WalletStart index) then ([], Throws cancelled_by_user)
      else
        case analyzeWallet_try oracles cancellationToken index tokenAddress wallet of
          (cs, Throws message) \<Rightarrow> (cs, analyzeWallet_catch wallet message)
        | (cs, r) \<Rightarrow> (cs, r))"

subsection \<open>\<^verbatim>\<open>analyzeWalletsWithTimeout\<close>\<close>

text \<open>
  The inner \<^verbatim>\<open>analyzeWalletWithTimeout\<close>: a rejection (\<open>Inl\<close>) only from its own cancellation
  check; the race with the timer and the \<^verbatim>\<open>catch\<close> give a wallet in every other case.
\<close>

definition timeoutMessage :: "Holder \<Rightarrow> string" where
  "timeoutMessage wallet = ''Wallet analysis timeout for '' @ take 8 (address wallet) @ ''...''"

definition analyzeWalletWithTimeout ::
  "Oracles \<Rightarrow> CancellationToken option \<Rightarrow> string \<Rightarrow> Holder \<Rightarrow> nat \<Rightarrow> string + Wallet" where
  "analyzeWalletWithTimeout oracles cancellationToken tokenAddress wallet index =
     (if isCancelled cancellationToken (BeforeWallet index) then Inl cancelled_by_user
      else
        case snd (analyzeWallet oracles cancellationToken index tokenAddress wallet) of
          Returns w \<Rightarrow> Inr w
        | Throws message \<Rightarrow> Inr (errorWallet wallet message)
        | Pending \<Rightarrow> Inr (errorWallet wallet (timeoutMessage wallet)))"

text \<open>
  \<^verbatim>\<open>Promise.all\<close>: the results in input order, or a rejection. Every rejection of a batch
  carries the same message, so which one comes first makes no difference.
\<close>

fun Promise_all :: "(string + 'a) list \<Rightarrow> string + 'a list" where
  "Promise_all [] = Inr []"
| "Promise_all (Inl e # ps) = Inl e"
| "Promise_all (Inr v # ps) = (case Promise_all ps of Inl e \<Rightarrow> Inl e | Inr vs \<Rightarrow> Inr (v # vs))"

text \<open>
  The batch loop \<^verbatim>\<open>for (let i = 0; i < wallets.length; i += BATCH_SIZE)\<close>; the oracles of
  a wallet are found by its index in \<^verbatim>\<open>wallets\<close>.
\<close>

definition analyzeBatch ::
  "(nat \<Rightarrow> Oracles) \<Rightarrow> CancellationToken option \<Rightarrow> string \<Rightarrow> Holder list \<Rightarrow> nat \<Rightarrow> string + Wallet list" where
  "analyzeBatch oracles cancellationToken tokenAddress wallets i =
     (let batch = take BATCH_SIZE (drop i wallets)
      in Promise_all
           (map (\<lambda>(wallet, batchIndex).
                   analyzeWalletWithTimeout (oracles (i + batchIndex)) cancellationToken tokenAddress
                     wallet (i + batchIndex))
              (zip batch [0..<length batch])))"

function analyzeBatches ::
  "(nat \<Rightarrow> Oracles) \<Rightarrow> CancellationToken option \<Rightarrow> string \<Rightarrow> Holder list \<Rightarrow> nat \<Rightarrow> Wallet list
     \<Rightarrow> string + Wallet list" where
  "analyzeBatches oracles cancellationToken tokenAddress wallets i analyzedWallets =
     (if i < length wallets then
        if isCancelled cancellationToken (BeforeBatch i) then Inl cancelled_by_user
        else
          case analyzeBatch oracles cancellationToken tokenAddress wallets i of
            Inl e \<Rightarrow> Inl e
          | Inr batchResults \<Rightarrow>
              analyzeBatches oracles cancellationToken tokenAddress wallets (i + BATCH_SIZE)
                (analyzedWallets @ batchResults)
      else Inr analyzedWallets)"
  by pat_completeness auto
termination
  by (relation "measure (\<lambda>(oracles, cancellationToken, tokenAddress, wallets, i, analyzedWallets).
        length wallets - i)")
     (auto simp: BATCH_SIZE_def)

declare analyzeBatches.simps [simp del]

definition analyzeWalletsWithTimeout ::
  "(nat \<Rightarrow> Oracles) \<Rightarrow> CancellationToken option \<Rightarrow> string \<Rightarrow> Holder list \<Rightarrow> string + Wallet list" where
  "analyzeWalletsWithTimeout oracles cancellationToken tokenAddress wallets =
     analyzeBatches oracles cancellationToken tokenAddress wallets 0 []"

subsection \<open>\<^verbatim>\<open>analyzeTeamSupply\<close>\<close>

text \<open>What \<^verbatim>\<open>solanaApi.getAsset\<close> resolves to, when it is not \<^verbatim>\<open>null\<close>.\<close>

record AssetInfo =
  supply_total :: int
  asset_symbol :: string
  asset_name :: string
  asset_decimals :: nat

text \<open>
  The local \<^verbatim>\<open>tokenInfo\<close>; \<^verbatim>\<open>scanData.tokenInfo\<close> has the same five values (its
  \<^verbatim>\<open>totalSupply\<close> is \<open>total_supply\<close>).
\<close>

record TokenInfo =
  total_supply :: int
  symbol :: string
  name :: string
  decimals :: nat
  token_address :: string

text \<open>
  An element of \<^verbatim>\<open>teamWallets\<close>. \<open>team_balance\<close> is the integer that
  \<^verbatim>\<open>w.balance.toString()\<close> renders.
\<close>

record TeamWallet =
  team_address :: string
  team_balance :: int
  percentage :: number
  team_category :: string
  team_funderAddress :: "string option"
  team_fundingDetails :: "details option"

record ScanData =
  tokenInfo :: TokenInfo
  analyzedWallets :: "Wallet list"
  teamWallets :: "TeamWallet list"
  totalSupplyControlled :: number
  tokenAddress :: string

record TrackingInfo =
  tracking_tokenAddress :: string
  tokenSymbol :: string
  tracking_totalSupply :: int
  tracking_decimals :: nat
  tracking_totalSupplyControlled :: number
  tracking_teamWallets :: "TeamWallet list"
  allWalletsDetails :: "Wallet list"

record AnalysisResult =
  scanData :: ScanData
  trackingInfo :: TrackingInfo

text \<open>
  The collaborators of one run: \<^verbatim>\<open>getAsset\<close> and \<^verbatim>\<open>getHolders\<close> (no timer races them:
  each resolves, \<open>Inr\<close>, or rejects with a message, \<open>Inl\<close>), and the oracles of the
  significant holder at each index.
\<close>

record Collaborators =
  getAsset :: "string + AssetInfo option"
  getHolders :: "string + Holder list"
  oraclesOf :: "nat \<Rightarrow> Oracles"

text \<open>The callback of \<^verbatim>\<open>.map\<close> in step 5.\<close>

definition teamWallet :: "int \<Rightarrow> Wallet \<Rightarrow> TeamWallet" where
  "teamWallet supply w =
     \<lparr>team_address = address w,
      team_balance = balance w,
      percentage =
        toNumber (multipliedBy (dividedBy (BN (of_int (balance w))) (BN (of_int supply))) (BN 100)),
      team_category = category w,
      team_funderAddress = orNull (funderAddress w),
      team_fundingDetails = fundingDetails w\<rparr>"

text \<open>Step 6: the \<^verbatim>\<open>reduce\<close> over the team wallets.\<close>

definition teamSupplyHeld :: "Wallet list \<Rightarrow> BigNumber" where
  "teamSupplyHeld wallets =
     foldl (\<lambda>total wallet. plus_bn total (BN (of_int (balance wallet)))) (BN 0)
       (filter (\<lambda>w. isTeamWalletCategory (category w)) wallets)"

definition supplyControlled :: "int \<Rightarrow> Wallet list \<Rightarrow> number" where
  "supplyControlled supply wallets =
     toNumber (multipliedBy (dividedBy (teamSupplyHeld wallets) (BN (of_int supply))) (BN 100))"

text \<open>The body of the \<^verbatim>\<open>try\<close> of \<^verbatim>\<open>analyzeTeamSupply\<close>.\<close>

definition analyzeTeamSupply_try ::
  "Collaborators \<Rightarrow> string \<Rightarrow> CancellationToken option \<Rightarrow> string + AnalysisResult" where
  "analyzeTeamSupply_try env tokenAddr cancellationToken =
     (if isCancelled cancellationToken RunStart then Inl cancelled_by_user
      else
        case getAsset env of
          Inl e \<Rightarrow> Inl e
        | Inr None \<Rightarrow> Inl ''No token info found''
        | Inr (Some assetInfo) \<Rightarrow>
            let info = \<lparr>total_supply = supply_total assetInfo, symbol = asset_symbol assetInfo,
                         name = asset_name assetInfo, decimals = asset_decimals assetInfo,
                         token_address = tokenAddr\<rparr>
            in
            if isCancelled cancellationToken AfterTokenInfo then Inl cancelled_by_user
            else
              case getHolders env of
                Inl e \<Rightarrow> Inl e
              | Inr allHolders \<Rightarrow>
                  if isCancelled cancellationToken AfterHolders then Inl cancelled_by_user
                  else
                    let significant = significantHolders (total_supply info) allHolders
                    in
                    if isCancelled cancellationToken AfterFilter then Inl cancelled_by_user
                    else
                      case analyzeWalletsWithTimeout (oraclesOf env) cancellationToken tokenAddr
                             significant of
                        Inl e \<Rightarrow> Inl e
                      | Inr analyzed \<Rightarrow>
                          if isCancelled cancellationToken BeforeTeamFilter
                          then Inl cancelled_by_user
                          else
                            let team =
                                  map (teamWallet (total_supply info))
                                    (filter (\<lambda>w. isTeamWalletCategory (category w)) analyzed)
                            in
                            if isCancelled cancellationToken BeforeSupply
                            then Inl cancelled_by_user
                            else
                              let controlled = supplyControlled (total_supply info) analyzed
                              in
                              Inr \<lparr>scanData =
                                     \<lparr>tokenInfo = info,
                                      analyzedWallets = analyzed,
                                      teamWallets = team,
                                      totalSupplyControlled = controlled,
                                      tokenAddress = tokenAddr\<rparr>,
                                   trackingInfo =
                                     \<lparr>tracking_tokenAddress = tokenAddr,
                                      tokenSymbol = symbol info,
                                      tracking_totalSupply = total_supply info,
                                      tracking_decimals = decimals info,
                                      tracking_totalSupplyControlled = controlled,
                                      tracking_teamWallets = team,
                                      allWalletsDetails = analyzed\<rparr>\<rparr>)"

text \<open>
  \<^verbatim>\<open>analyzeTeamSupply\<close>: the \<^verbatim>\<open>catch\<close> polls the token once more and throws a new
  cancellation error when it is cancelled, the caught error otherwise.
\<close>

definition analyzeTeamSupply ::
  "Collaborators \<Rightarrow> string \<Rightarrow> CancellationToken option \<Rightarrow> string + AnalysisResult" where
  "analyzeTeamSupply env tokenAddr cancellationToken =
     (case analyzeTeamSupply_try env tokenAddr cancellationToken of
        Inl e \<Rightarrow> if isCancelled cancellationToken OnError then Inl cancelled_by_user else Inl e
      | Inr result \<Rightarrow> Inr result)"

subsection \<open>Example collaborators\<close>

text \<open>A wallet with five signatures: fresh.\<close>

definition freshOracles :: Oracles where
  "freshOracles =
     \<lparr>signatures1001 = Returns 5, signatures101 = Returns 5,
      inactivityCheck = Returns None, fundingResult = Returns []\<rparr>"

text \<open>A wallet at the cap of the first lookup: excessive activity.\<close>

definition busyOracles :: Oracles where
  "busyOracles =
     \<lparr>signatures1001 = Returns 1001, signatures101 = Returns 101,
      inactivityCheck = Throws ''unreachable'', fundingResult = Throws ''unreachable''\<rparr>"

text \<open>A wallet that is neither, whose inactivity check throws and whose funder is known.\<close>

definition flakyOracles :: Oracles where
  "flakyOracles =
     \<lparr>signatures1001 = Returns 500, signatures101 = Returns 101,
      inactivityCheck = Throws ''No Token account found'',
      fundingResult = Returns [\<lparr>info_funderAddress = Some ''Funder'', info_fundingDetails = None\<rparr>]\<rparr>"

text \<open>A wallet whose inactivity check is still running when the timer fires.\<close>

definition hangingOracles :: Oracles where
  "hangingOracles =
     \<lparr>signatures1001 = Returns 500, signatures101 = Returns 101,
      inactivityCheck = Pending, fundingResult = Returns []\<rparr>"

text \<open>A wallet whose first signature lookup fails.\<close>

definition failingLookupOracles :: Oracles where
  "failingLookupOracles =
     \<lparr>signatures1001 = Throws ''429 Too Many Requests'', signatures101 = Returns 5,
      inactivityCheck = Returns None, fundingResult = Returns []\<rparr>"

text \<open>
  A wallet all of whose collaborators throw, each with a message that contains "cancelled".
\<close>

definition cancelledRequestOracles :: Oracles where
  "cancelledRequestOracles =
     \<lparr>signatures1001 = Throws ''signature lookup cancelled upstream'',
      signatures101 = Throws ''signature lookup cancelled upstream'',
      inactivityCheck = Throws ''Request cancelled by RPC node'',
      fundingResult = Throws ''funding request cancelled''\<rparr>"

definition exampleOracles :: "nat \<Rightarrow> Oracles" where
  "exampleOracles k =
     (if k = 1 then hangingOracles else if k = 2 then busyOracles
      else if k = 3 then flakyOracles else freshOracles)"

definition exampleHolders :: "Holder list" where
  "exampleHolders =
     [\<lparr>address = ''Wallet0aaaa'', balance = 10\<rparr>, \<lparr>address = ''Wallet1bbbb'', balance = 20\<rparr>,
      \<lparr>address = ''Wallet2cccc'', balance = 30\<rparr>, \<lparr>address = ''Wallet3dddd'', balance = 40\<rparr>,
      \<lparr>address = ''Wallet4eeee'', balance = 50\<rparr>, \<lparr>address = ''Wallet5ffff'', balance = 60\<rparr>]"

text \<open>One holder, for the examples of a single classification.\<close>

definition exampleHolder :: Holder where
  "exampleHolder = \<lparr>address = ''Wallet0aaaa'', balance = 10\<rparr>"

text \<open>Three holders of one unit each, all fresh, of a token with a total supply of 3.\<close>

definition threeHolders :: "Holder list" where
  "threeHolders =
     [\<lparr>address = ''Wallet0aaaa'', balance = 1\<rparr>, \<lparr>address = ''Wallet1bbbb'', balance = 1\<rparr>,
      \<lparr>address = ''Wallet2cccc'', balance = 1\<rparr>]"

definition threeFreshWallets :: "Wallet list" where
  "threeFreshWallets = map (\<lambda>h. classified h ''Fresh'' None None None) threeHolders"

definition exampleEnv :: Collaborators where
  "exampleEnv =
     \<lparr>getAsset = Inr (Some \<lparr>supply_total = 3, asset_symbol = ''TKN'', asset_name = ''Token'',
                             asset_decimals = 6\<rparr>),
      getHolders = Inr threeHolders,
      oraclesOf = (\<lambda>k. freshOracles)\<rparr>"

text \<open>A token that \<^verbatim>\<open>getAsset\<close> does not know.\<close>

definition unknownTokenEnv :: Collaborators where
  "unknownTokenEnv = \<lparr>getAsset = Inr None, getHolders = Inr [], oraclesOf = (\<lambda>k. freshOracles)\<rparr>"

text \<open>Twenty holders of one unit each: four batches.\<close>

definition twentyHoldersEnv :: Collaborators where
  "twentyHoldersEnv =
     \<lparr>getAsset = Inr (Some \<lparr>supply_total = 20, asset_symbol = ''TKN'', asset_name = ''Token'',
                             asset_decimals = 6\<rparr>),
      getHolders = Inr (map (\<lambda>k. \<lparr>address = ''Wallet'' @ replicate k CHR ''x'', balance = 1\<rparr>) [0..<20]),
      oraclesOf = (\<lambda>k. freshOracles)\<rparr>"

subsection \<open>Cancellation tokens\<close>

text \<open>
  The token's predicate is "has cancellation been requested": once it holds it keeps
  holding. \<open>phase\<close> orders the polls of a run as far as the program orders them in time:
  the checks before the batches, the polls of the batches and their wallets, the two checks
  after the batches, and the poll of the \<^verbatim>\<open>catch\<close> block, which comes after whatever threw.
  \<open>cancellationIsPermanent\<close> asks no more than that an answer "cancelled" is repeated in
  every later phase.
\<close>

fun phase :: "poll \<Rightarrow> nat" where
  "phase RunStart = 0"
| "phase AfterTokenInfo = 1"
| "phase AfterHolders = 2"
| "phase AfterFilter = 3"
| "phase (BeforeBatch k) = 4"
| "phase (BeforeWallet k) = 4"
| "phase (WalletStart k) = 4"
| "phase (BeforeInactivity k) = 4"
| "phase (BeforeFunding k) = 4"
| "phase BeforeTeamFilter = 5"
| "phase BeforeSupply = 6"
| "phase OnError = 7"

definition cancellationIsPermanent :: "CancellationToken \<Rightarrow> bool" where
  "cancellationIsPermanent token = (\<forall>p q. phase p < phase q \<longrightarrow> token p \<longrightarrow> token q)"

text \<open>
  A token that is cancelled while the signature lookups of the first batch are in flight.
\<close>

definition cancelledDuringLookups :: CancellationToken where
  "cancelledDuringLookups p =
     (case p of
        RunStart \<Rightarrow> False | AfterTokenInfo \<Rightarrow> False | AfterHolders \<Rightarrow> False
      | AfterFilter \<Rightarrow> False
      | BeforeBatch k \<Rightarrow> 0 < k
      | BeforeWallet k \<Rightarrow> False | WalletStart k \<Rightarrow> False
      | BeforeInactivity k \<Rightarrow> True | BeforeFunding k \<Rightarrow> True
      | BeforeTeamFilter \<Rightarrow> True | BeforeSupply \<Rightarrow> True
      | OnError \<Rightarrow> True)"

text \<open>A token that is cancelled after the second batch.\<close>

definition cancelledAfterSecondBatch :: CancellationToken where
  "cancelledAfterSecondBatch p =
     (case p of
        RunStart \<Rightarrow> False | AfterTokenInfo \<Rightarrow> False | AfterHolders \<Rightarrow> False
      | AfterFilter \<Rightarrow> False
      | BeforeBatch k \<Rightarrow> 10 \<le> k
      | BeforeWallet k \<Rightarrow> 10 \<le> k | WalletStart k \<Rightarrow> 10 \<le> k
      | BeforeInactivity k \<Rightarrow> 10 \<le> k | BeforeFunding k \<Rightarrow> 10 \<le> k
      | BeforeTeamFilter \<Rightarrow> True | BeforeSupply \<Rightarrow> True
      | OnError \<Rightarrow> True)"

subsection \<open>The aggregate as the specification words it\<close>

text \<open>
  The sum of the balances of the analyzed wallets whose category is one of \<^verbatim>\<open>Fresh\<close>,
  \<^verbatim>\<open>Inactive\<close>, \<^verbatim>\<open>No Token\<close>, \<^verbatim>\<open>No ATA Transaction\<close>: the specification's
  \<open>\<Sigma>\<close>, to be compared with \<open>teamSupplyHeld\<close>.
\<close>

definition spec_teamBalance :: "Wallet list \<Rightarrow> int" where
  "spec_teamBalance ws =
     sum_list (map balance
       (filter (\<lambda>w. category w \<in> {''Fresh'', ''Inactive'', ''No Token'', ''No ATA Transaction''}) ws))"

section \<open>Properties\<close>

subsection \<open>Sequencing, the timeout wrapper and the batch loop\<close>

lemma Promise_all_Inr: "Promise_all ps = Inr vs \<Longrightarrow> ps = map Inr vs"
proof (induction ps arbitrary: vs)
  case Nil
  then show ?case by simp
next
  case (Cons p ps)
  then show ?case
    by (cases p) (auto split: sum.splits)
qed

lemma snd_andThen:
  "snd (andThen m f) =
     (case snd m of Returns v \<Rightarrow> snd (f v) | Throws e \<Rightarrow> Throws e | Pending \<Rightarrow> Pending)"
  by (simp add: andThen_def split: prod.splits outcome.splits)

lemma fst_andThen:
  "fst (andThen m f) =
     (case snd m of Returns v \<Rightarrow> fst m @ fst (f v) | Throws e \<Rightarrow> fst m | Pending \<Rightarrow> fst m)"
  by (simp add: andThen_def split: prod.splits outcome.splits)

lemma fundingStep_holder:
  "snd (fundingStep oracles w c days) = Returns w' \<Longrightarrow>
     address w' = address w \<and> balance w' = balance w"
  by (auto simp: fundingStep_def classified_def split: outcome.splits list.splits)

lemma andThen_Returns:
  assumes "snd (andThen m f) = Returns v"
  obtains u where "snd m = Returns u" and "snd (f u) = Returns v"
  using assms by (auto simp: snd_andThen split: outcome.splits)

lemma analyzeWallet_try_holder:
  assumes "snd (analyzeWallet_try oracles ct i ta w) = Returns w'"
  shows "address w' = address w \<and> balance w' = balance w"
proof -
  from assms obtain excessive where
    rest: "snd (if excessive then ([], Returns (classified w ''Normal'' None None None))
       else
         andThen (isFreshWallet oracles (address w)) (\<lambda>isFresh.
           andThen
             (if isFresh then ([], Returns (''Fresh'', None))
              else inactivityStep oracles ct i (address w) ta)
             (\<lambda>(c, days).
                if isCancelled ct (BeforeFunding i)
                then ([], Throws cancelled_by_user)
                else fundingStep oracles w c days))) = Returns w'"
    unfolding analyzeWallet_try_def by (rule andThen_Returns)
  show ?thesis
  proof (cases excessive)
    case True
    with rest show ?thesis by (auto simp: classified_def)
  next
    case False
    with rest obtain isFresh where
      rest2: "snd (andThen
             (if isFresh then ([], Returns (''Fresh'', None))
              else inactivityStep oracles ct i (address w) ta)
             (\<lambda>(c, days).
                if isCancelled ct (BeforeFunding i)
                then ([], Throws cancelled_by_user)
                else fundingStep oracles w c days)) = Returns w'"
      by (auto elim: andThen_Returns)
    then obtain cd where
      "snd (case cd of (c, days) \<Rightarrow>
                if isCancelled ct (BeforeFunding i)
                then ([], Throws cancelled_by_user)
                else fundingStep oracles w c days) = Returns w'"
      by (rule andThen_Returns)
    then show ?thesis
      by (cases cd) (auto dest: fundingStep_holder split: if_splits)
  qed
qed


lemma snd_analyzeWallet:
  "snd (analyzeWallet oracles ct i ta w) =
     (if isCancelled ct (WalletStart i) then Throws cancelled_by_user
      else case snd (analyzeWallet_try oracles ct i ta w) of
             Throws message \<Rightarrow> analyzeWallet_catch w message
           | r \<Rightarrow> r)"
  by (simp add: analyzeWallet_def split: prod.splits outcome.splits)

lemma analyzeWallet_holder:
  assumes "snd (analyzeWallet oracles ct i ta w) = Returns w'"
  shows "address w' = address w \<and> balance w' = balance w"
  using assms analyzeWallet_try_holder [of oracles ct i ta w w']
  by (auto simp: snd_analyzeWallet analyzeWallet_catch_def errorWallet_def
      split: if_splits outcome.splits)

lemma analyzeWalletWithTimeout_holder:
  assumes "analyzeWalletWithTimeout oracles ct ta w i = Inr w'"
  shows "address w' = address w \<and> balance w' = balance w"
  using assms analyzeWallet_holder [of oracles ct i ta w]
  by (auto simp: analyzeWalletWithTimeout_def errorWallet_def split: if_splits outcome.splits)



lemma analyzeBatch_Inr:
  assumes "analyzeBatch oracles ct ta wallets i = Inr rs"
  shows "length rs = min BATCH_SIZE (length wallets - i)"
    and "\<And>k. k < length rs \<Longrightarrow>
           analyzeWalletWithTimeout (oracles (i + k)) ct ta (wallets ! (i + k)) (i + k) = Inr (rs ! k)"
proof -
  define batch where "batch = take BATCH_SIZE (drop i wallets)"
  define g where "g = (\<lambda>(wallet, batchIndex).
      analyzeWalletWithTimeout (oracles (i + batchIndex)) ct ta wallet (i + batchIndex))"
  define ps where "ps = map g (zip batch [0..<length batch])"
  have lenb: "length batch = min BATCH_SIZE (length wallets - i)"
    unfolding batch_def by simp
  have lenps: "length ps = length batch"
    unfolding ps_def by simp
  from assms have "Promise_all ps = Inr rs"
    unfolding analyzeBatch_def ps_def g_def batch_def Let_def .
  then have eq: "ps = map Inr rs"
    by (rule Promise_all_Inr)
  then have lenrs: "length rs = length batch"
    using lenps by (metis length_map)
  with lenb show "length rs = min BATCH_SIZE (length wallets - i)"
    by simp
  fix k assume k: "k < length rs"
  with lenrs have kb: "k < length batch" by simp
  then have "zip batch [0..<length batch] ! k = (batch ! k, k)"
    by simp
  with kb have "ps ! k = g (batch ! k, k)"
    unfolding ps_def by simp
  moreover from kb lenb have "i \<le> length wallets"
    by linarith
  with kb have "batch ! k = wallets ! (i + k)"
    unfolding batch_def by simp
  moreover from k eq have "ps ! k = Inr (rs ! k)"
    by simp
  ultimately show "analyzeWalletWithTimeout (oracles (i + k)) ct ta (wallets ! (i + k)) (i + k) = Inr (rs ! k)"
    unfolding g_def by simp
qed


lemma analyzeBatches_Inr:
  assumes "analyzeBatches oracles ct ta wallets i acc = Inr out"
    and "length acc = min i (length wallets)"
    and "\<And>k. k < length acc \<Longrightarrow>
           analyzeWalletWithTimeout (oracles k) ct ta (wallets ! k) k = Inr (acc ! k)"
  shows "length out = length wallets \<and>
         (\<forall>k<length wallets.
            analyzeWalletWithTimeout (oracles k) ct ta (wallets ! k) k = Inr (out ! k))"
  using assms
proof (induction oracles ct ta wallets i acc rule: analyzeBatches.induct)
  case (1 oracles ct ta wallets i acc)
  show ?case
  proof (cases "i < length wallets")
    case False
    with "1.prems"(1) have "out = acc"
      by (simp add: analyzeBatches.simps)
    with False "1.prems"(2,3) show ?thesis
      by simp
  next
    case True
    with "1.prems"(1) obtain rs where
      nc: "\<not> isCancelled ct (BeforeBatch i)" and
      b: "analyzeBatch oracles ct ta wallets i = Inr rs" and
      rec: "analyzeBatches oracles ct ta wallets (i + BATCH_SIZE) (acc @ rs) = Inr out"
      by (subst (asm) analyzeBatches.simps) (auto split: if_splits sum.splits)
    note lens = analyzeBatch_Inr [OF b]
    from True "1.prems"(2) have lacc: "length acc = i"
      by simp
    have len': "length (acc @ rs) = min (i + BATCH_SIZE) (length wallets)"
      using lens(1) lacc True by simp
    have nth': "analyzeWalletWithTimeout (oracles k) ct ta (wallets ! k) k = Inr ((acc @ rs) ! k)"
      if "k < length (acc @ rs)" for k
    proof (cases "k < length acc")
      case True
      with "1.prems"(3) show ?thesis
        by (simp add: nth_append)
    next
      case False
      with that have "k - i < length rs" and "i + (k - i) = k"
        using lacc by simp_all
      with lens(2) [of "k - i"] False lacc show ?thesis
        by (simp add: nth_append)
    qed
    show ?thesis
      using "1.IH" [OF True nc b rec len' nth'] .
  qed
qed

lemma Promise_all_total:
  assumes "\<And>p. p \<in> set ps \<Longrightarrow> \<exists>v. p = Inr v"
  shows "\<exists>vs. Promise_all ps = Inr vs"
  using assms
proof (induction ps)
  case Nil
  then show ?case by simp
next
  case (Cons p ps)
  then obtain v vs where "p = Inr v" and "Promise_all ps = Inr vs"
    by (metis list.set_intros(1,2))
  then show ?case by simp
qed

lemma analyzeWalletWithTimeout_total:
  "\<not> isCancelled ct (BeforeWallet k) \<Longrightarrow> \<exists>w'. analyzeWalletWithTimeout oracles ct ta w k = Inr w'"
  by (simp add: analyzeWalletWithTimeout_def split: outcome.splits)

lemma analyzeBatch_total:
  assumes "\<And>k. \<not> isCancelled ct (BeforeWallet k)"
  shows "\<exists>rs. analyzeBatch oracles ct ta wallets i = Inr rs"
  unfolding analyzeBatch_def Let_def
  by (rule Promise_all_total) (auto simp: analyzeWalletWithTimeout_total [OF assms])

lemma analyzeBatches_total:
  assumes "\<And>k. \<not> isCancelled ct (BeforeWallet k)" and "\<And>k. \<not> isCancelled ct (BeforeBatch k)"
  shows "\<exists>out. analyzeBatches oracles ct ta wallets i acc = Inr out"
  using assms
proof (induction oracles ct ta wallets i acc rule: analyzeBatches.induct)
  case (1 oracles ct ta wallets i acc)
  show ?case
  proof (cases "i < length wallets")
    case False
    then show ?thesis
      by (simp add: analyzeBatches.simps)
  next
    case True
    from analyzeBatch_total [of ct oracles ta wallets i] "1.prems"(1)
    obtain rs where b: "analyzeBatch oracles ct ta wallets i = Inr rs"
      by blast
    from "1.IH" [OF True "1.prems"(2) b] "1.prems"
    obtain out where "analyzeBatches oracles ct ta wallets (i + BATCH_SIZE) (acc @ rs) = Inr out"
      by blast
    with True b "1.prems"(2) [of i] show ?thesis
      by (subst analyzeBatches.simps) simp
  qed
qed

lemma analyzeWalletsWithTimeout_Inr:
  assumes "analyzeWalletsWithTimeout oracles ct ta wallets = Inr out"
  shows "length out = length wallets"
    and "\<And>k. k < length wallets \<Longrightarrow>
           analyzeWalletWithTimeout (oracles k) ct ta (wallets ! k) k = Inr (out ! k)"
  using analyzeBatches_Inr [of oracles ct ta wallets 0 "[]" out] assms
  by (simp_all add: analyzeWalletsWithTimeout_def)


lemma includes_str_prefix: "prefix sub s \<Longrightarrow> includes_str s sub"
  by (cases s) simp_all

lemma includes_str_append: "includes_str (pre @ sub @ post) sub"
  by (induction pre) (simp_all add: includes_str_prefix)

lemma includes_cancelled: "includes_str cancelled_by_user ''cancelled''"
  by (simp add: cancelled_by_user_def)

lemma timeout_includes: "includes_str (timeoutMessage w) ''timeout''"
  unfolding timeoutMessage_def
  using includes_str_append [of "''Wallet analysis ''" "''timeout''" "'' for '' @ take 8 (address w) @ ''...''"]
  by simp

subsection \<open>One classification\<close>

lemma fst_analyzeWallet:
  "fst (analyzeWallet oracles ct i ta w) =
     (if isCancelled ct (WalletStart i) then [] else fst (analyzeWallet_try oracles ct i ta w))"
  by (simp add: analyzeWallet_def split: prod.splits outcome.splits)

lemma fst_hasExcessiveTransactions [simp]:
  "fst (hasExcessiveTransactions oracles a) = [GetSignaturesForAddress a 1001]"
  by (simp add: hasExcessiveTransactions_def)

lemma fst_isFreshWallet [simp]:
  "fst (isFreshWallet oracles a) = [GetSignaturesForAddress a 101]"
  by (simp add: isFreshWallet_def FRESH_WALLET_THRESHOLD_def)

lemma fst_fundingStep [simp]:
  "fst (fundingStep oracles w c days) = [AnalyzeFunding (address w)]"
  by (simp add: fundingStep_def)

lemma fundingStep_category:
  "snd (fundingStep oracles w c days) = Returns w' \<Longrightarrow> category w' = c \<and> error w' = None"
  by (auto simp: fundingStep_def classified_def split: outcome.splits list.splits)

lemma fundingStep_settles:
  "fundingResult oracles \<noteq> Pending \<Longrightarrow> \<exists>w'. snd (fundingStep oracles w c days) = Returns w'"
  by (simp add: fundingStep_def split: outcome.splits list.splits)

lemma inactivity_throws:
  assumes "\<not> isCancelled ct (WalletStart i)"
    and "snd (hasExcessiveTransactions oracles (address w)) = Returns False"
    and "snd (isFreshWallet oracles (address w)) = Returns False"
    and "\<not> isCancelled ct (BeforeInactivity i)"
    and "inactivityCheck oracles = Throws e"
  shows "analyzeWallet oracles ct i ta w =
     (if isCancelled ct (BeforeFunding i)
      then ([GetSignaturesForAddress (address w) 1001, GetSignaturesForAddress (address w) 101,
             CheckInactivityPeriod (address w) ta], Throws cancelled_by_user)
      else ([GetSignaturesForAddress (address w) 1001, GetSignaturesForAddress (address w) 101,
             CheckInactivityPeriod (address w) ta, AnalyzeFunding (address w)],
            snd (fundingStep oracles w ''Normal'' None)))"
proof -
  obtain cs1 where h1: "hasExcessiveTransactions oracles (address w) = (cs1, Returns False)"
    using assms(2) by (cases "hasExcessiveTransactions oracles (address w)") simp
  then have cs1: "cs1 = [GetSignaturesForAddress (address w) 1001]"
    using fst_hasExcessiveTransactions [of oracles "address w"] by simp
  obtain cs2 where h2: "isFreshWallet oracles (address w) = (cs2, Returns False)"
    using assms(3) by (cases "isFreshWallet oracles (address w)") simp
  then have cs2: "cs2 = [GetSignaturesForAddress (address w) 101]"
    using fst_isFreshWallet [of oracles "address w"] by simp
  have h3: "inactivityStep oracles ct i (address w) ta =
      ([CheckInactivityPeriod (address w) ta], Returns (''Normal'', None))"
    using assms(4,5) by (simp add: inactivityStep_def)
  obtain cs4 r4 where h4: "fundingStep oracles w ''Normal'' None = (cs4, r4)"
    by (cases "fundingStep oracles w ''Normal'' None")
  then have cs4: "cs4 = [AnalyzeFunding (address w)]"
    using fst_fundingStep [of oracles w "''Normal''" None] by simp
  have nothrow: "r4 \<noteq> Throws m" for m
    using h4 by (auto simp: fundingStep_def split: outcome.splits list.splits)
  show ?thesis
  proof (cases "isCancelled ct (BeforeFunding i)")
    case True
    then show ?thesis
      using assms(1) h1 h2 h3 cs1 cs2 includes_cancelled
      by (simp add: analyzeWallet_def analyzeWallet_try_def andThen_def analyzeWallet_catch_def)
  next
    case False
    show ?thesis
    proof (cases r4)
      case (Throws m)
      with nothrow show ?thesis by blast
    next
      case (Returns w')
      with False show ?thesis
        using assms(1) h1 h2 h3 h4 cs1 cs2 cs4
        by (simp add: analyzeWallet_def analyzeWallet_try_def andThen_def)
    next
      case Pending
      with False show ?thesis
        using assms(1) h1 h2 h3 h4 cs1 cs2 cs4
        by (simp add: analyzeWallet_def analyzeWallet_try_def andThen_def)
    qed
  qed
qed

subsection \<open>The significant-holder filter\<close>

lemma truncate_int_ge_iff:
  assumes "0 < n"
  shows "of_int n \<le> (of_int (truncate_int y) :: rat) \<longleftrightarrow> of_int n \<le> y"
proof (cases "0 \<le> y")
  case True
  then show ?thesis
    by (simp add: truncate_int_def le_floor_iff)
next
  case False
  then have "y < 0" by simp
  then have "\<lceil>y\<rceil> \<le> 0"
    by (simp add: ceiling_le_iff)
  with assms have "\<not> n \<le> \<lceil>y\<rceil>" by linarith
  moreover from assms \<open>y < 0\<close> have "\<not> of_int n \<le> y" by simp
  ultimately show ?thesis
    using \<open>y < 0\<close> by (simp add: truncate_int_def)
qed

lemma ROUND_DOWN_threshold:
  assumes "0 < t"
  shows "1 / 1000 \<le> ROUND_DOWN (of_int b / of_int t) \<longleftrightarrow> t \<le> 1000 * b"
proof -
  let ?y = "(of_int b / of_int t * 10 ^ 18 :: rat)"
  have "1 / 1000 \<le> ROUND_DOWN (of_int b / of_int t)
      \<longleftrightarrow> (of_int (10 ^ 15) :: rat) \<le> of_int (truncate_int ?y)"
    by (simp add: ROUND_DOWN_def DECIMAL_PLACES_def field_simps)
  also have "\<dots> \<longleftrightarrow> (of_int (10 ^ 15) :: rat) \<le> ?y"
    by (rule truncate_int_ge_iff) simp
  also have "\<dots> \<longleftrightarrow> (of_int t :: rat) \<le> of_int (1000 * b)"
    using assms by (simp add: field_simps)
  also have "\<dots> \<longleftrightarrow> t \<le> 1000 * b"
    by (simp only: of_int_le_iff)
  finally show ?thesis .
qed

lemma significantHolder_iff:
  assumes "0 < supply"
  shows "significantHolder supply h \<longleftrightarrow>
           address h \<notin> set KNOWN_LP_POOLS \<and> supply \<le> 1000 * balance h"
  using assms ROUND_DOWN_threshold [OF assms, of "balance h"]
  by (simp add: significantHolder_def SUPPLY_THRESHOLD_def)

text \<open>
  C2. For a positive total supply, a holder is in the significant-holder set if and only if
  it is one of the holders, its address is not a known liquidity pool, and its balance
  divided by the total supply, truncated towards zero to 18 fractional digits, is at least
  0.001. So a holder at exactly 0.1% of the supply is kept, and a holder at a known pool
  address is dropped whatever its balance.
\<close>

theorem significantHolders_iff:
  assumes "0 < supply"
  shows "(h \<in> set (significantHolders supply holders) \<longleftrightarrow>
            h \<in> set holders \<and> address h \<notin> set KNOWN_LP_POOLS \<and>
            (1 / 1000 :: rat)
              \<le> of_int (truncate_int (of_int (balance h) / of_int supply * 10 ^ 18)) / 10 ^ 18)
       \<and> (h \<in> set holders \<and> address h \<notin> set KNOWN_LP_POOLS \<and> 1000 * balance h = supply
            \<longrightarrow> h \<in> set (significantHolders supply holders))
       \<and> (address h \<in> set KNOWN_LP_POOLS \<longrightarrow> h \<notin> set (significantHolders supply holders))"
proof -
  have "(1 / 1000 :: rat)
           \<le> of_int (truncate_int (of_int (balance h) / of_int supply * 10 ^ 18)) / 10 ^ 18
      \<longleftrightarrow> supply \<le> 1000 * balance h"
    using ROUND_DOWN_threshold [OF assms, of "balance h"]
    by (simp add: ROUND_DOWN_def DECIMAL_PLACES_def)
  then show ?thesis
    using significantHolder_iff [OF assms, of h]
    by (auto simp: significantHolders_def)
qed

theorem significantHolders_iff_witness:
  "(0::int) < 1000000
   \<and> \<lparr>address = ''D'', balance = 1000\<rparr>
       \<in> set (significantHolders 1000000
                [\<lparr>address = ''A'', balance = 2000\<rparr>, \<lparr>address = ''B'', balance = 500\<rparr>,
                 \<lparr>address = ''675kPX9MHTjS2zt1qfr1NYHuzeLXfQM9H24wFSUt1Mp8'', balance = 300000\<rparr>,
                 \<lparr>address = ''D'', balance = 1000\<rparr>])
   \<and> \<lparr>address = ''675kPX9MHTjS2zt1qfr1NYHuzeLXfQM9H24wFSUt1Mp8'', balance = 300000\<rparr>
       \<notin> set (significantHolders 1000000
                [\<lparr>address = ''A'', balance = 2000\<rparr>, \<lparr>address = ''B'', balance = 500\<rparr>,
                 \<lparr>address = ''675kPX9MHTjS2zt1qfr1NYHuzeLXfQM9H24wFSUt1Mp8'', balance = 300000\<rparr>,
                 \<lparr>address = ''D'', balance = 1000\<rparr>])"
proof -
  have pos: "(0::int) < 1000000" by simp
  let ?hs = "[\<lparr>address = ''A'', balance = 2000\<rparr>, \<lparr>address = ''B'', balance = 500\<rparr>,
              \<lparr>address = ''675kPX9MHTjS2zt1qfr1NYHuzeLXfQM9H24wFSUt1Mp8'', balance = 300000\<rparr>,
              \<lparr>address = ''D'', balance = 1000\<rparr>]"
  have "\<lparr>address = ''D'', balance = 1000\<rparr> \<in> set (significantHolders 1000000 ?hs)"
    using significantHolders_iff [OF pos, of "\<lparr>address = ''D'', balance = 1000\<rparr>" ?hs]
    by (simp add: KNOWN_LP_POOLS_def truncate_int_def)
  moreover have "\<lparr>address = ''675kPX9MHTjS2zt1qfr1NYHuzeLXfQM9H24wFSUt1Mp8'', balance = 300000\<rparr>
       \<notin> set (significantHolders 1000000 ?hs)"
    using significantHolders_iff [OF pos,
        of "\<lparr>address = ''675kPX9MHTjS2zt1qfr1NYHuzeLXfQM9H24wFSUt1Mp8'', balance = 300000\<rparr>" ?hs]
    by (simp add: KNOWN_LP_POOLS_def)
  ultimately show ?thesis by simp
qed

subsection \<open>The batch scheduler\<close>

text \<open>
  C3. When the batch scheduler completes (it returns an array rather than rejecting), the
  array has the length of the input, and the wallet at each index has the address and the
  balance of the input holder at that index, whatever its category. When the token never
  reports cancelled, the scheduler does complete.
\<close>

theorem analyzedWallets_order:
  "(analyzeWalletsWithTimeout oracles ct ta wallets = Inr out \<longrightarrow>
      length out = length wallets \<and>
      (\<forall>i<length wallets.
         address (out ! i) = address (wallets ! i) \<and> balance (out ! i) = balance (wallets ! i)))
   \<and> ((\<forall>p. \<not> isCancelled ct p) \<longrightarrow>
        (\<exists>out'. analyzeWalletsWithTimeout oracles ct ta wallets = Inr out'))"
proof (intro conjI impI)
  assume run: "analyzeWalletsWithTimeout oracles ct ta wallets = Inr out"
  show "length out = length wallets"
    by (rule analyzeWalletsWithTimeout_Inr(1) [OF run])
  show "\<forall>i<length wallets.
         address (out ! i) = address (wallets ! i) \<and> balance (out ! i) = balance (wallets ! i)"
    using analyzeWalletsWithTimeout_Inr(2) [OF run] analyzeWalletWithTimeout_holder
    by blast
next
  assume "\<forall>p. \<not> isCancelled ct p"
  then show "\<exists>out'. analyzeWalletsWithTimeout oracles ct ta wallets = Inr out'"
    unfolding analyzeWalletsWithTimeout_def by (intro analyzeBatches_total) simp_all
qed

theorem analyzedWallets_order_witness:
  "\<exists>out. analyzeWalletsWithTimeout exampleOracles None ''Token'' exampleHolders = Inr out
     \<and> length out = 6 \<and> address (out ! 5) = ''Wallet5ffff'' \<and> balance (out ! 5) = 60"
proof -
  note t = analyzedWallets_order [of exampleOracles None "''Token''" exampleHolders]
  have "\<forall>p. \<not> isCancelled None p"
    by (simp add: isCancelled_def)
  with t obtain out where
    run: "analyzeWalletsWithTimeout exampleOracles None ''Token'' exampleHolders = Inr out"
    by blast
  with t [of out] have "length out = length exampleHolders"
    and "\<forall>i<length exampleHolders. address (out ! i) = address (exampleHolders ! i)
            \<and> balance (out ! i) = balance (exampleHolders ! i)"
    by simp_all
  then have "length out = 6 \<and> address (out ! 5) = ''Wallet5ffff'' \<and> balance (out ! 5) = 60"
    by (simp add: exampleHolders_def)
  with run show ?thesis by blast
qed

subsection \<open>The classifier\<close>

text \<open>
  C5. A wallet for which the signature lookup with limit 1001 returns at least 1000
  signatures is classified \<^verbatim>\<open>Normal\<close> at once, with null \<^verbatim>\<open>daysSinceLastActivity\<close>,
  \<^verbatim>\<open>funderAddress\<close> and \<^verbatim>\<open>fundingDetails\<close>; that lookup is the only call made, whatever the
  other collaborators would answer. When the lookup throws, the wallet counts as not
  excessive and the classification goes on with the freshness lookup.
\<close>

theorem excessive_short_circuit:
  "(\<not> isCancelled ct (WalletStart i) \<and> signatures1001 oracles = Returns n \<and> 1000 \<le> n \<longrightarrow>
      analyzeWallet oracles ct i ta w =
        ([GetSignaturesForAddress (address w) 1001],
         Returns \<lparr>address = address w, balance = balance w, category = ''Normal'',
                  daysSinceLastActivity = None, funderAddress = None, fundingDetails = None,
                  error = None\<rparr>))
   \<and> (\<not> isCancelled ct (WalletStart i) \<and> signatures1001 oracles = Throws e \<longrightarrow>
        hasExcessiveTransactions oracles (address w) =
          ([GetSignaturesForAddress (address w) 1001], Returns False)
        \<and> take 2 (fst (analyzeWallet oracles ct i ta w)) =
            [GetSignaturesForAddress (address w) 1001, GetSignaturesForAddress (address w) 101])"
proof (intro conjI impI)
  assume "\<not> isCancelled ct (WalletStart i) \<and> signatures1001 oracles = Returns n \<and> 1000 \<le> n"
  then show "analyzeWallet oracles ct i ta w =
        ([GetSignaturesForAddress (address w) 1001],
         Returns \<lparr>address = address w, balance = balance w, category = ''Normal'',
                  daysSinceLastActivity = None, funderAddress = None, fundingDetails = None,
                  error = None\<rparr>)"
    by (simp add: analyzeWallet_def analyzeWallet_try_def andThen_def hasExcessiveTransactions_def
        classified_def)
next
  assume a: "\<not> isCancelled ct (WalletStart i) \<and> signatures1001 oracles = Throws e"
  then show "hasExcessiveTransactions oracles (address w) =
          ([GetSignaturesForAddress (address w) 1001], Returns False)"
    by (simp add: hasExcessiveTransactions_def)
  then have "snd (hasExcessiveTransactions oracles (address w)) = Returns False"
    by simp
  with a show "take 2 (fst (analyzeWallet oracles ct i ta w)) =
            [GetSignaturesForAddress (address w) 1001, GetSignaturesForAddress (address w) 101]"
    by (simp add: fst_analyzeWallet analyzeWallet_try_def fst_andThen split: outcome.splits)
qed

theorem excessive_short_circuit_witness:
  "signatures1001 busyOracles = Returns 1001 \<and> (1000::nat) \<le> 1001
   \<and> analyzeWallet busyOracles None 0 ''Token'' \<lparr>address = ''Wallet2cccc'', balance = 30\<rparr> =
        ([GetSignaturesForAddress ''Wallet2cccc'' 1001],
         Returns \<lparr>address = ''Wallet2cccc'', balance = 30, category = ''Normal'',
                  daysSinceLastActivity = None, funderAddress = None, fundingDetails = None,
                  error = None\<rparr>)
   \<and> signatures1001 failingLookupOracles = Throws ''429 Too Many Requests''
   \<and> take 2 (fst (analyzeWallet failingLookupOracles None 0 ''Token''
                     \<lparr>address = ''Wallet2cccc'', balance = 30\<rparr>)) =
        [GetSignaturesForAddress ''Wallet2cccc'' 1001, GetSignaturesForAddress ''Wallet2cccc'' 101]"
proof -
  have nc: "\<not> isCancelled None (WalletStart 0)"
    by (simp add: isCancelled_def)
  have b: "signatures1001 busyOracles = Returns 1001"
    by (simp add: busyOracles_def)
  have f: "signatures1001 failingLookupOracles = Throws ''429 Too Many Requests''"
    by (simp add: failingLookupOracles_def)
  from excessive_short_circuit [of None 0 busyOracles 1001 "''Token''"
      "\<lparr>address = ''Wallet2cccc'', balance = 30\<rparr>"] nc b
  have "analyzeWallet busyOracles None 0 ''Token'' \<lparr>address = ''Wallet2cccc'', balance = 30\<rparr> =
        ([GetSignaturesForAddress ''Wallet2cccc'' 1001],
         Returns \<lparr>address = ''Wallet2cccc'', balance = 30, category = ''Normal'',
                  daysSinceLastActivity = None, funderAddress = None, fundingDetails = None,
                  error = None\<rparr>)"
    by simp
  moreover from excessive_short_circuit [of None 0 failingLookupOracles _ "''Token''"
      "\<lparr>address = ''Wallet2cccc'', balance = 30\<rparr>" "''429 Too Many Requests''"] nc f
  have "take 2 (fst (analyzeWallet failingLookupOracles None 0 ''Token''
                     \<lparr>address = ''Wallet2cccc'', balance = 30\<rparr>)) =
        [GetSignaturesForAddress ''Wallet2cccc'' 1001, GetSignaturesForAddress ''Wallet2cccc'' 101]"
    by simp
  ultimately show ?thesis
    using b f by simp
qed

text \<open>
  C6. For a wallet that is neither excessive nor fresh and whose inactivity check throws
  (whatever the message), the exception does not leave the inner \<^verbatim>\<open>try\<close>: the funding
  analysis is the next call unless the token reports cancelled before it, a wallet that
  is returned has category \<^verbatim>\<open>Normal\<close> and no error, and one is returned whenever the
  funding analysis settles.
\<close>

theorem inactivity_exception_swallowed:
  assumes "\<not> isCancelled ct (WalletStart i)"
    and "snd (hasExcessiveTransactions oracles (address w)) = Returns False"
    and "snd (isFreshWallet oracles (address w)) = Returns False"
    and "\<not> isCancelled ct (BeforeInactivity i)"
    and "inactivityCheck oracles = Throws e"
  shows "fst (analyzeWallet oracles ct i ta w) =
           [GetSignaturesForAddress (address w) 1001, GetSignaturesForAddress (address w) 101,
            CheckInactivityPeriod (address w) ta]
           @ (if isCancelled ct (BeforeFunding i) then [] else [AnalyzeFunding (address w)])
       \<and> (\<forall>w'. snd (analyzeWallet oracles ct i ta w) = Returns w' \<longrightarrow>
              category w' = ''Normal'' \<and> error w' = None)
       \<and> (\<not> isCancelled ct (BeforeFunding i) \<and> fundingResult oracles \<noteq> Pending \<longrightarrow>
            (\<exists>w'. snd (analyzeWallet oracles ct i ta w) = Returns w' \<and> category w' = ''Normal''))"
  using inactivity_throws [OF assms, of ta] fundingStep_category [of oracles w "''Normal''" None]
    fundingStep_settles [of oracles w "''Normal''" None]
  by (auto split: if_splits)

theorem inactivity_exception_swallowed_witness:
  "inactivityCheck flakyOracles = Throws ''No Token account found''
   \<and> analyzeWallet flakyOracles None 3 ''Token'' \<lparr>address = ''Wallet3dddd'', balance = 40\<rparr> =
       ([GetSignaturesForAddress ''Wallet3dddd'' 1001, GetSignaturesForAddress ''Wallet3dddd'' 101,
         CheckInactivityPeriod ''Wallet3dddd'' ''Token'', AnalyzeFunding ''Wallet3dddd''],
        Returns \<lparr>address = ''Wallet3dddd'', balance = 40, category = ''Normal'',
                 daysSinceLastActivity = None, funderAddress = Some ''Funder'',
                 fundingDetails = None, error = None\<rparr>)"
proof -
  let ?w = "\<lparr>address = ''Wallet3dddd'', balance = 40\<rparr>"
  have run: "analyzeWallet flakyOracles None 3 ''Token'' ?w =
       ([GetSignaturesForAddress ''Wallet3dddd'' 1001, GetSignaturesForAddress ''Wallet3dddd'' 101,
         CheckInactivityPeriod ''Wallet3dddd'' ''Token'', AnalyzeFunding ''Wallet3dddd''],
        Returns \<lparr>address = ''Wallet3dddd'', balance = 40, category = ''Normal'',
                 daysSinceLastActivity = None, funderAddress = Some ''Funder'',
                 fundingDetails = None, error = None\<rparr>)"
    by code_simp
  have h: "\<not> isCancelled None (WalletStart 3)"
    "snd (hasExcessiveTransactions flakyOracles (address ?w)) = Returns False"
    "snd (isFreshWallet flakyOracles (address ?w)) = Returns False"
    "\<not> isCancelled None (BeforeInactivity 3)"
    "inactivityCheck flakyOracles = Throws ''No Token account found''"
    by (simp_all add: isCancelled_def hasExcessiveTransactions_def isFreshWallet_def flakyOracles_def
        FRESH_WALLET_THRESHOLD_def)
  from inactivity_exception_swallowed [OF h, of "''Token''"] run h(5)
  show ?thesis by simp
qed

subsection \<open>What a classification can throw\<close>

lemma andThen_Throws:
  assumes "snd (andThen m f) = Throws e"
  shows "snd m = Throws e \<or> (\<exists>u. snd m = Returns u \<and> snd (f u) = Throws e)"
  using assms by (auto simp: snd_andThen split: outcome.splits)

lemma hasExcessiveTransactions_no_throw: "snd (hasExcessiveTransactions oracles a) \<noteq> Throws e"
  by (simp add: hasExcessiveTransactions_def split: outcome.splits)

lemma isFreshWallet_no_throw: "snd (isFreshWallet oracles a) \<noteq> Throws e"
  by (simp add: isFreshWallet_def split: outcome.splits)

lemma inactivityStep_no_throw: "snd (inactivityStep oracles ct i a ta) \<noteq> Throws e"
  by (simp add: inactivityStep_def split: outcome.splits)

lemma fundingStep_no_throw: "snd (fundingStep oracles w c days) \<noteq> Throws e"
  by (simp add: fundingStep_def split: outcome.splits list.splits)

lemma analyzeWallet_try_Throws:
  assumes "snd (analyzeWallet_try oracles ct i ta w) = Throws e"
  shows "e = cancelled_by_user \<and> isCancelled ct (BeforeFunding i)"
proof -
  from assms [unfolded analyzeWallet_try_def, THEN andThen_Throws]
    hasExcessiveTransactions_no_throw
  obtain excessive where
    r1: "snd (if excessive then ([], Returns (classified w ''Normal'' None None None))
       else
         andThen (isFreshWallet oracles (address w)) (\<lambda>isFresh.
           andThen
             (if isFresh then ([], Returns (''Fresh'', None))
              else inactivityStep oracles ct i (address w) ta)
             (\<lambda>(c, days).
                if isCancelled ct (BeforeFunding i)
                then ([], Throws cancelled_by_user)
                else fundingStep oracles w c days))) = Throws e"
    by blast
  then have ne: "\<not> excessive"
    by (cases excessive) simp_all
  with r1 have "snd (andThen (isFreshWallet oracles (address w)) (\<lambda>isFresh.
           andThen
             (if isFresh then ([], Returns (''Fresh'', None))
              else inactivityStep oracles ct i (address w) ta)
             (\<lambda>(c, days).
                if isCancelled ct (BeforeFunding i)
                then ([], Throws cancelled_by_user)
                else fundingStep oracles w c days))) = Throws e"
    by simp
  from this [THEN andThen_Throws] isFreshWallet_no_throw
  obtain isFresh where
    r2: "snd (andThen
             (if isFresh then ([], Returns (''Fresh'', None))
              else inactivityStep oracles ct i (address w) ta)
             (\<lambda>(c, days).
                if isCancelled ct (BeforeFunding i)
                then ([], Throws cancelled_by_user)
                else fundingStep oracles w c days)) = Throws e"
    by blast
  have "snd (if isFresh then ([], Returns (''Fresh'', None))
              else inactivityStep oracles ct i (address w) ta) \<noteq> Throws e"
    using inactivityStep_no_throw by (cases isFresh) simp_all
  with r2 [THEN andThen_Throws] obtain cd where
    "snd (case cd of (c, days) \<Rightarrow>
                if isCancelled ct (BeforeFunding i)
                then ([], Throws cancelled_by_user)
                else fundingStep oracles w c days) = Throws e"
    by blast
  then show ?thesis
    using fundingStep_no_throw by (cases cd) (auto split: if_splits)
qed

lemma analyzeWallet_Throws:
  assumes "snd (analyzeWallet oracles ct i ta w) = Throws e"
  shows "e = cancelled_by_user \<and> (isCancelled ct (WalletStart i) \<or> isCancelled ct (BeforeFunding i))"
proof (cases "isCancelled ct (WalletStart i)")
  case True
  with assms show ?thesis
    by (simp add: snd_analyzeWallet)
next
  case False
  with assms obtain m where "snd (analyzeWallet_try oracles ct i ta w) = Throws m"
    and "analyzeWallet_catch w m = Throws e"
    by (auto simp: snd_analyzeWallet split: outcome.splits)
  with analyzeWallet_try_Throws [of oracles ct i ta w m] show ?thesis
    by (simp add: analyzeWallet_catch_def split: if_splits)
qed

subsection \<open>Timeouts and cancellation in a batch\<close>

text \<open>
  C7. When the classification of one wallet is still pending as the 30000 ms timer fires, a
  completed batch run has at that wallet's index an entry of category \<^verbatim>\<open>Error\<close> whose
  message is the timeout message, which contains "timeout". Every entry is the outcome of
  that wallet's own classification alone: a wallet whose classification returns is recorded
  as returned, one whose classification throws is recorded as \<^verbatim>\<open>Error\<close> with that message.
  When the token does not report cancelled at the scheduler's polls, the run completes.
\<close>

theorem timeout_contained:
  assumes "j < length wallets"
    and "snd (analyzeWallet (oracles j) ct j ta (wallets ! j)) = Pending"
  shows "(analyzeWalletsWithTimeout oracles ct ta wallets = Inr out \<longrightarrow>
            category (out ! j) = ''Error''
          \<and> error (out ! j) = Some (timeoutMessage (wallets ! j))
          \<and> includes_str (timeoutMessage (wallets ! j)) ''timeout''
          \<and> (\<forall>k<length wallets. \<forall>w'.
                snd (analyzeWallet (oracles k) ct k ta (wallets ! k)) = Returns w' \<longrightarrow> out ! k = w')
          \<and> (\<forall>k<length wallets. \<forall>m.
                snd (analyzeWallet (oracles k) ct k ta (wallets ! k)) = Throws m \<longrightarrow>
                out ! k = errorWallet (wallets ! k) m))
       \<and> ((\<forall>k. \<not> isCancelled ct (BeforeBatch k) \<and> \<not> isCancelled ct (BeforeWallet k)) \<longrightarrow>
            (\<exists>out'. analyzeWalletsWithTimeout oracles ct ta wallets = Inr out'))"
proof (intro conjI impI allI)
  assume run: "analyzeWalletsWithTimeout oracles ct ta wallets = Inr out"
  note each = analyzeWalletsWithTimeout_Inr(2) [OF run]
  from each [OF assms(1)] assms(2)
  have j: "out ! j = errorWallet (wallets ! j) (timeoutMessage (wallets ! j))"
    by (simp add: analyzeWalletWithTimeout_def split: if_splits)
  then show "category (out ! j) = ''Error''"
    and "error (out ! j) = Some (timeoutMessage (wallets ! j))"
    by (simp_all add: errorWallet_def)
  show "includes_str (timeoutMessage (wallets ! j)) ''timeout''"
    by (rule timeout_includes)
  { fix k w'
    assume "k < length wallets"
      and "snd (analyzeWallet (oracles k) ct k ta (wallets ! k)) = Returns w'"
    with each [of k] show "out ! k = w'"
      by (simp add: analyzeWalletWithTimeout_def split: if_splits) }
  { fix k m
    assume "k < length wallets"
      and "snd (analyzeWallet (oracles k) ct k ta (wallets ! k)) = Throws m"
    with each [of k] show "out ! k = errorWallet (wallets ! k) m"
      by (simp add: analyzeWalletWithTimeout_def split: if_splits) }
next
  assume "\<forall>k. \<not> isCancelled ct (BeforeBatch k) \<and> \<not> isCancelled ct (BeforeWallet k)"
  then show "\<exists>out'. analyzeWalletsWithTimeout oracles ct ta wallets = Inr out'"
    unfolding analyzeWalletsWithTimeout_def by (intro analyzeBatches_total) simp_all
qed

theorem timeout_contained_witness:
  "1 < length exampleHolders
   \<and> snd (analyzeWallet (exampleOracles 1) None 1 ''Token'' (exampleHolders ! 1)) = Pending
   \<and> (\<exists>out. analyzeWalletsWithTimeout exampleOracles None ''Token'' exampleHolders = Inr out
         \<and> category (out ! 1) = ''Error''
         \<and> error (out ! 1) = Some ''Wallet analysis timeout for Wallet1b...''
         \<and> category (out ! 0) = ''Fresh''
         \<and> category (out ! 2) = ''Normal'')"
proof -
  have len: "1 < length exampleHolders"
    by (simp add: exampleHolders_def)
  have pend: "snd (analyzeWallet (exampleOracles 1) None 1 ''Token'' (exampleHolders ! 1)) = Pending"
    by code_simp
  have w0: "snd (analyzeWallet (exampleOracles 0) None 0 ''Token'' (exampleHolders ! 0)) =
      Returns \<lparr>address = ''Wallet0aaaa'', balance = 10, category = ''Fresh'',
               daysSinceLastActivity = None, funderAddress = None, fundingDetails = None,
               error = None\<rparr>"
    by code_simp
  have w2: "snd (analyzeWallet (exampleOracles 2) None 2 ''Token'' (exampleHolders ! 2)) =
      Returns \<lparr>address = ''Wallet2cccc'', balance = 30, category = ''Normal'',
               daysSinceLastActivity = None, funderAddress = None, fundingDetails = None,
               error = None\<rparr>"
    by code_simp
  have msg: "timeoutMessage (exampleHolders ! 1) = ''Wallet analysis timeout for Wallet1b...''"
    by code_simp
  note t = timeout_contained [where j = 1 and wallets = exampleHolders and oracles = exampleOracles
      and ct = None and ta = "''Token''", OF len pend]
  have "\<forall>k. \<not> isCancelled None (BeforeBatch k) \<and> \<not> isCancelled None (BeforeWallet k)"
    by (simp add: isCancelled_def)
  with t obtain out where
    run: "analyzeWalletsWithTimeout exampleOracles None ''Token'' exampleHolders = Inr out"
    by blast
  from t [of out] run have
    "category (out ! 1) = ''Error''"
    "error (out ! 1) = Some (timeoutMessage (exampleHolders ! 1))"
    and ret: "\<forall>k<length exampleHolders. \<forall>w'.
          snd (analyzeWallet (exampleOracles k) None k ''Token'' (exampleHolders ! k)) = Returns w'
          \<longrightarrow> out ! k = w'"
    by blast+
  moreover from ret w0 have "category (out ! 0) = ''Fresh''"
    by (simp add: exampleHolders_def)
  moreover from ret w2 have "category (out ! 2) = ''Normal''"
    by (simp add: exampleHolders_def)
  ultimately show ?thesis
    using len pend run msg by auto
qed

text \<open>
  C4 (the code at the failing input). The token is cancelled while the lookups of the only
  wallet are in flight: \<^verbatim>\<open>analyzeWallet\<close> throws the cancellation error, the \<^verbatim>\<open>catch\<close> of
  \<^verbatim>\<open>analyzeWalletWithTimeout\<close> turns it into an entry of category \<^verbatim>\<open>Error\<close>, and the batch
  scheduler returns that array instead of rejecting.
\<close>

theorem cancellation_recorded_as_error:
  "snd (analyzeWallet freshOracles (Some cancelledDuringLookups) 0 ''Token'' exampleHolder) =
     Throws ''Analysis cancelled by user''
   \<and> analyzeWalletsWithTimeout (\<lambda>k. freshOracles) (Some cancelledDuringLookups) ''Token''
       [exampleHolder] =
     Inr [\<lparr>address = ''Wallet0aaaa'', balance = 10, category = ''Error'',
           daysSinceLastActivity = None, funderAddress = None, fundingDetails = None,
           error = Some ''Analysis cancelled by user''\<rparr>]"
  by code_simp

lemma inactivityStep_category:
  "snd (inactivityStep oracles ct i a ta) = Returns (c, days) \<Longrightarrow> c \<noteq> ''Error''"
  by (auto simp: inactivityStep_def inactivityResult_def split: if_splits outcome.splits option.splits)

lemma analyzeWallet_try_category:
  assumes "snd (analyzeWallet_try oracles ct i ta w) = Returns w'"
  shows "category w' \<noteq> ''Error'' \<and> error w' = None"
proof -
  from assms obtain excessive where
    rest: "snd (if excessive then ([], Returns (classified w ''Normal'' None None None))
       else
         andThen (isFreshWallet oracles (address w)) (\<lambda>isFresh.
           andThen
             (if isFresh then ([], Returns (''Fresh'', None))
              else inactivityStep oracles ct i (address w) ta)
             (\<lambda>(c, days).
                if isCancelled ct (BeforeFunding i)
                then ([], Throws cancelled_by_user)
                else fundingStep oracles w c days))) = Returns w'"
    unfolding analyzeWallet_try_def by (rule andThen_Returns)
  show ?thesis
  proof (cases excessive)
    case True
    with rest show ?thesis by (auto simp: classified_def)
  next
    case False
    with rest obtain isFresh where
      rest2: "snd (andThen
             (if isFresh then ([], Returns (''Fresh'', None))
              else inactivityStep oracles ct i (address w) ta)
             (\<lambda>(c, days).
                if isCancelled ct (BeforeFunding i)
                then ([], Throws cancelled_by_user)
                else fundingStep oracles w c days)) = Returns w'"
      by (auto elim: andThen_Returns)
    then obtain cd where
      first: "snd (if isFresh then ([], Returns (''Fresh'', None))
              else inactivityStep oracles ct i (address w) ta) = Returns cd"
      and last: "snd (case cd of (c, days) \<Rightarrow>
                if isCancelled ct (BeforeFunding i)
                then ([], Throws cancelled_by_user)
                else fundingStep oracles w c days) = Returns w'"
      by (rule andThen_Returns)
    obtain c days where cd: "cd = (c, days)"
      by (cases cd)
    from first cd have "c \<noteq> ''Error''"
      using inactivityStep_category [of oracles ct i "address w" ta c days]
      by (cases isFresh) auto
    moreover from last cd have "category w' = c \<and> error w' = None"
      by (auto dest: fundingStep_category split: if_splits)
    ultimately show ?thesis by simp
  qed
qed

lemma analyzeWallet_category:
  assumes "snd (analyzeWallet oracles ct i ta w) = Returns w'"
  shows "category w' \<noteq> ''Error'' \<and> error w' = None"
proof (cases "snd (analyzeWallet_try oracles ct i ta w)")
  case (Returns v)
  with assms have "v = w'"
    by (simp add: snd_analyzeWallet split: if_splits)
  with Returns analyzeWallet_try_category show ?thesis
    by blast
next
  case (Throws m)
  with analyzeWallet_try_Throws have "m = cancelled_by_user"
    by blast
  with Throws assms includes_cancelled show ?thesis
    by (simp add: snd_analyzeWallet analyzeWallet_catch_def split: if_splits)
next
  case Pending
  with assms show ?thesis
    by (simp add: snd_analyzeWallet split: if_splits)
qed

lemma signatures1001_exception:
  "analyzeWallet (oracles\<lparr>signatures1001 := Throws m\<rparr>) ct i ta w =
   analyzeWallet (oracles\<lparr>signatures1001 := Returns 0\<rparr>) ct i ta w"
  by (simp add: analyzeWallet_def analyzeWallet_try_def hasExcessiveTransactions_def
      isFreshWallet_def inactivityStep_def fundingStep_def cong del: if_weak_cong)

lemma signatures101_exception:
  "analyzeWallet (oracles\<lparr>signatures101 := Throws m\<rparr>) ct i ta w =
   analyzeWallet (oracles\<lparr>signatures101 := Returns FRESH_WALLET_THRESHOLD\<rparr>) ct i ta w"
  by (simp add: analyzeWallet_def analyzeWallet_try_def hasExcessiveTransactions_def
      isFreshWallet_def inactivityStep_def fundingStep_def cong del: if_weak_cong)

lemma inactivityCheck_exception:
  "analyzeWallet (oracles\<lparr>inactivityCheck := Throws m\<rparr>) ct i ta w =
   analyzeWallet (oracles\<lparr>inactivityCheck := Returns None\<rparr>) ct i ta w"
  by (simp add: analyzeWallet_def analyzeWallet_try_def hasExcessiveTransactions_def
      isFreshWallet_def inactivityStep_def fundingStep_def inactivityResult_def
      cong del: if_weak_cong)

lemma fundingResult_exception:
  "analyzeWallet (oracles\<lparr>fundingResult := Throws m\<rparr>) ct i ta w =
   analyzeWallet (oracles\<lparr>fundingResult := Returns []\<rparr>) ct i ta w"
  by (simp add: analyzeWallet_def analyzeWallet_try_def hasExcessiveTransactions_def
      isFreshWallet_def inactivityStep_def fundingStep_def cong del: if_weak_cong)

text \<open>
  C10 (amended). The outer \<^verbatim>\<open>catch\<close> of \<^verbatim>\<open>analyzeWallet\<close> tells a cancellation by the
  substring "cancelled" of the message, not by the token or the type of the error: every
  error with such a message that reaches it is re-raised. But no exception of a
  collaborator reaches it. An exception of a signature lookup, of the inactivity check or of
  the funding analysis, whatever its message, does what that collaborator's negative answer
  does (no signatures, not fresh, a null inactivity result, an empty funding result): the
  inactivity step leaves the category \<^verbatim>\<open>Normal\<close>, the funding step returns the wallet with
  the category it was given, a returned wallet never has category \<^verbatim>\<open>Error\<close>, and what
  \<^verbatim>\<open>analyzeWallet\<close> re-raises is its own cancellation error, thrown only when the token has
  reported cancelled.
\<close>

theorem catch_by_substring:
  "analyzeWallet_catch w (pre @ ''cancelled'' @ post) = Throws (pre @ ''cancelled'' @ post)
   \<and> (snd (analyzeWallet oracles ct i ta w) = Throws e \<longrightarrow>
        e = cancelled_by_user \<and> (\<exists>p. isCancelled ct p))
   \<and> (snd (analyzeWallet oracles ct i ta w) = Returns w' \<longrightarrow>
        category w' \<noteq> ''Error'' \<and> error w' = None)
   \<and> analyzeWallet (oracles\<lparr>signatures1001 := Throws m\<rparr>) ct i ta w =
       analyzeWallet (oracles\<lparr>signatures1001 := Returns 0\<rparr>) ct i ta w
   \<and> analyzeWallet (oracles\<lparr>signatures101 := Throws m\<rparr>) ct i ta w =
       analyzeWallet (oracles\<lparr>signatures101 := Returns FRESH_WALLET_THRESHOLD\<rparr>) ct i ta w
   \<and> analyzeWallet (oracles\<lparr>inactivityCheck := Throws m\<rparr>) ct i ta w =
       analyzeWallet (oracles\<lparr>inactivityCheck := Returns None\<rparr>) ct i ta w
   \<and> analyzeWallet (oracles\<lparr>fundingResult := Throws m\<rparr>) ct i ta w =
       analyzeWallet (oracles\<lparr>fundingResult := Returns []\<rparr>) ct i ta w
   \<and> (\<not> isCancelled ct (BeforeInactivity i) \<longrightarrow>
        snd (inactivityStep (oracles\<lparr>inactivityCheck := Throws m\<rparr>) ct i (address w) ta) =
          Returns (''Normal'', None))
   \<and> snd (fundingStep (oracles\<lparr>fundingResult := Throws m\<rparr>) w c days) =
       Returns \<lparr>address = address w, balance = balance w, category = c,
                daysSinceLastActivity = days, funderAddress = None, fundingDetails = None,
                error = None\<rparr>"
proof -
  have "includes_str (pre @ ''cancelled'' @ post) ''cancelled''"
    by (rule includes_str_append)
  then have handler:
    "analyzeWallet_catch w (pre @ ''cancelled'' @ post) = Throws (pre @ ''cancelled'' @ post)"
    unfolding analyzeWallet_catch_def by (simp only: if_True)
  have rethrow: "snd (analyzeWallet oracles ct i ta w) = Throws e \<longrightarrow>
        e = cancelled_by_user \<and> (\<exists>p. isCancelled ct p)"
    using analyzeWallet_Throws [of oracles ct i ta w e] by blast
  have returned: "snd (analyzeWallet oracles ct i ta w) = Returns w' \<longrightarrow>
        category w' \<noteq> ''Error'' \<and> error w' = None"
    using analyzeWallet_category [of oracles ct i ta w w'] by blast
  have e1: "analyzeWallet (oracles\<lparr>signatures1001 := Throws m\<rparr>) ct i ta w =
       analyzeWallet (oracles\<lparr>signatures1001 := Returns 0\<rparr>) ct i ta w"
    by (rule signatures1001_exception)
  have e2: "analyzeWallet (oracles\<lparr>signatures101 := Throws m\<rparr>) ct i ta w =
       analyzeWallet (oracles\<lparr>signatures101 := Returns FRESH_WALLET_THRESHOLD\<rparr>) ct i ta w"
    by (rule signatures101_exception)
  have e3: "analyzeWallet (oracles\<lparr>inactivityCheck := Throws m\<rparr>) ct i ta w =
       analyzeWallet (oracles\<lparr>inactivityCheck := Returns None\<rparr>) ct i ta w"
    by (rule inactivityCheck_exception)
  have e4: "analyzeWallet (oracles\<lparr>fundingResult := Throws m\<rparr>) ct i ta w =
       analyzeWallet (oracles\<lparr>fundingResult := Returns []\<rparr>) ct i ta w"
    by (rule fundingResult_exception)
  have inactivity: "\<not> isCancelled ct (BeforeInactivity i) \<longrightarrow>
        snd (inactivityStep (oracles\<lparr>inactivityCheck := Throws m\<rparr>) ct i (address w) ta) =
          Returns (''Normal'', None)"
    by (simp add: inactivityStep_def)
  have funding: "snd (fundingStep (oracles\<lparr>fundingResult := Throws m\<rparr>) w c days) =
       Returns \<lparr>address = address w, balance = balance w, category = c,
                daysSinceLastActivity = days, funderAddress = None, fundingDetails = None,
                error = None\<rparr>"
    by (simp add: fundingStep_def classified_def)
  from handler rethrow returned e1 e2 e3 e4 inactivity funding show ?thesis
    by (intro conjI)
qed

theorem catch_by_substring_witness:
  "inactivityCheck cancelledRequestOracles = Throws ''Request cancelled by RPC node''
   \<and> includes_str ''Request cancelled by RPC node'' ''cancelled''
   \<and> analyzeWallet_catch exampleHolder ''Request cancelled by RPC node'' =
       Throws ''Request cancelled by RPC node''
   \<and> analyzeWallet cancelledRequestOracles None 0 ''Token'' exampleHolder =
       ([GetSignaturesForAddress ''Wallet0aaaa'' 1001, GetSignaturesForAddress ''Wallet0aaaa'' 101,
         CheckInactivityPeriod ''Wallet0aaaa'' ''Token'', AnalyzeFunding ''Wallet0aaaa''],
        Returns \<lparr>address = ''Wallet0aaaa'', balance = 10, category = ''Normal'',
                 daysSinceLastActivity = None, funderAddress = None, fundingDetails = None,
                 error = None\<rparr>)
   \<and> (\<exists>w'. snd (analyzeWallet cancelledRequestOracles None 0 ''Token'' exampleHolder) = Returns w'
          \<and> category w' \<noteq> ''Error'' \<and> error w' = None)
   \<and> \<not> isCancelled None (BeforeInactivity 0)
   \<and> snd (inactivityStep cancelledRequestOracles None 0 ''Wallet0aaaa'' ''Token'') =
       Returns (''Normal'', None)
   \<and> snd (analyzeWallet freshOracles (Some cancelledDuringLookups) 0 ''Token'' exampleHolder) =
       Throws ''Analysis cancelled by user''
   \<and> (\<exists>p. isCancelled (Some cancelledDuringLookups) p)"
proof -
  have thrown: "inactivityCheck cancelledRequestOracles = Throws ''Request cancelled by RPC node''"
    by (simp add: cancelledRequestOracles_def)
  have sub: "includes_str ''Request cancelled by RPC node'' ''cancelled''"
    by code_simp
  have run: "analyzeWallet cancelledRequestOracles None 0 ''Token'' exampleHolder =
       ([GetSignaturesForAddress ''Wallet0aaaa'' 1001, GetSignaturesForAddress ''Wallet0aaaa'' 101,
         CheckInactivityPeriod ''Wallet0aaaa'' ''Token'', AnalyzeFunding ''Wallet0aaaa''],
        Returns \<lparr>address = ''Wallet0aaaa'', balance = 10, category = ''Normal'',
                 daysSinceLastActivity = None, funderAddress = None, fundingDetails = None,
                 error = None\<rparr>)"
    by code_simp
  have cancelled: "snd (analyzeWallet freshOracles (Some cancelledDuringLookups) 0 ''Token''
      exampleHolder) = Throws ''Analysis cancelled by user''"
    by code_simp
  note t1 = catch_by_substring [where w = exampleHolder and pre = "''Request ''"
      and post = "'' by RPC node''" and oracles = cancelledRequestOracles and ct = None
      and i = 0 and ta = "''Token''"
      and w' = "\<lparr>address = ''Wallet0aaaa'', balance = 10, category = ''Normal'',
                 daysSinceLastActivity = None, funderAddress = None, fundingDetails = None,
                 error = None\<rparr>"]
  note t2 = catch_by_substring [where w = exampleHolder and oracles = freshOracles
      and ct = "Some cancelledDuringLookups" and i = 0 and ta = "''Token''"
      and e = "''Analysis cancelled by user''"]
  from t1 have handler: "analyzeWallet_catch exampleHolder ''Request cancelled by RPC node'' =
       Throws ''Request cancelled by RPC node''"
    by simp
  from t1 run have ret: "\<exists>w'. snd (analyzeWallet cancelledRequestOracles None 0 ''Token''
        exampleHolder) = Returns w' \<and> category w' \<noteq> ''Error'' \<and> error w' = None"
    by simp
  from t2 cancelled have tok: "\<exists>p. isCancelled (Some cancelledDuringLookups) p"
    by blast
  have nc: "\<not> isCancelled None (BeforeInactivity 0)"
    by (simp add: isCancelled_def)
  have same: "cancelledRequestOracles\<lparr>inactivityCheck := Throws ''Request cancelled by RPC node''\<rparr> =
      cancelledRequestOracles"
    by (simp add: cancelledRequestOracles_def)
  have addr: "address exampleHolder = ''Wallet0aaaa''"
    by (simp add: exampleHolder_def)
  from catch_by_substring [where w = exampleHolder and oracles = cancelledRequestOracles
      and ct = None and i = 0 and ta = "''Token''" and m = "''Request cancelled by RPC node''"] nc
  have "snd (inactivityStep
               (cancelledRequestOracles\<lparr>inactivityCheck := Throws ''Request cancelled by RPC node''\<rparr>)
               None 0 (address exampleHolder) ''Token'') = Returns (''Normal'', None)"
    by blast
  then have step: "snd (inactivityStep cancelledRequestOracles None 0 ''Wallet0aaaa'' ''Token'') =
       Returns (''Normal'', None)"
    by (simp only: same addr)
  from thrown sub handler run ret nc step cancelled tok show ?thesis
    by (intro conjI)
qed

text \<open>
  C10 (as stated, refuted). There is no input for which \<^verbatim>\<open>analyzeWallet\<close> re-raises anything
  while the token has not reported cancelled.
\<close>

theorem unrelated_exception_never_rethrown:
  "\<not> (\<exists>oracles ct i ta w e.
         snd (analyzeWallet oracles ct i ta w) = Throws e \<and> (\<forall>p. \<not> isCancelled ct p))"
  using analyzeWallet_Throws by blast

subsection \<open>The run as a whole\<close>

lemma analyzeTeamSupply_try_Inr:
  assumes "analyzeTeamSupply_try env addr ct = Inr r"
  obtains assetInfo allHolders analyzed where
    "getAsset env = Inr (Some assetInfo)"
    "getHolders env = Inr allHolders"
    "analyzeWalletsWithTimeout (oraclesOf env) ct addr
       (significantHolders (supply_total assetInfo) allHolders) = Inr analyzed"
    "\<not> isCancelled ct RunStart" "\<not> isCancelled ct AfterTokenInfo" "\<not> isCancelled ct AfterHolders"
    "\<not> isCancelled ct AfterFilter" "\<not> isCancelled ct BeforeTeamFilter"
    "\<not> isCancelled ct BeforeSupply"
    "scanData r =
       \<lparr>tokenInfo = \<lparr>total_supply = supply_total assetInfo, symbol = asset_symbol assetInfo,
                      name = asset_name assetInfo, decimals = asset_decimals assetInfo,
                      token_address = addr\<rparr>,
        analyzedWallets = analyzed,
        teamWallets = map (teamWallet (supply_total assetInfo))
                        (filter (\<lambda>w. isTeamWalletCategory (category w)) analyzed),
        totalSupplyControlled = supplyControlled (supply_total assetInfo) analyzed,
        tokenAddress = addr\<rparr>"
    "trackingInfo r =
       \<lparr>tracking_tokenAddress = addr,
        tokenSymbol = asset_symbol assetInfo,
        tracking_totalSupply = supply_total assetInfo,
        tracking_decimals = asset_decimals assetInfo,
        tracking_totalSupplyControlled = supplyControlled (supply_total assetInfo) analyzed,
        tracking_teamWallets = map (teamWallet (supply_total assetInfo))
                        (filter (\<lambda>w. isTeamWalletCategory (category w)) analyzed),
        allWalletsDetails = analyzed\<rparr>"
proof -
  from assms have nc1: "\<not> isCancelled ct RunStart"
    by (auto simp: analyzeTeamSupply_try_def)
  with assms obtain assetInfo where a: "getAsset env = Inr (Some assetInfo)"
    by (auto simp: analyzeTeamSupply_try_def split: sum.splits option.splits)
  from assms nc1 a have nc2: "\<not> isCancelled ct AfterTokenInfo"
    by (auto simp: analyzeTeamSupply_try_def Let_def)
  with assms nc1 a obtain allHolders where h: "getHolders env = Inr allHolders"
    by (auto simp: analyzeTeamSupply_try_def Let_def split: sum.splits)
  from assms nc1 a nc2 h have nc3: "\<not> isCancelled ct AfterHolders"
    by (auto simp: analyzeTeamSupply_try_def Let_def)
  from assms nc1 a nc2 h nc3 have nc4: "\<not> isCancelled ct AfterFilter"
    by (auto simp: analyzeTeamSupply_try_def Let_def)
  with assms nc1 a nc2 h nc3 obtain analyzed where
    w: "analyzeWalletsWithTimeout (oraclesOf env) ct addr
       (significantHolders (supply_total assetInfo) allHolders) = Inr analyzed"
    by (auto simp: analyzeTeamSupply_try_def Let_def split: sum.splits)
  from assms nc1 a nc2 h nc3 nc4 w have nc5: "\<not> isCancelled ct BeforeTeamFilter"
    by (auto simp: analyzeTeamSupply_try_def Let_def)
  from assms nc1 a nc2 h nc3 nc4 w nc5 have nc6: "\<not> isCancelled ct BeforeSupply"
    by (auto simp: analyzeTeamSupply_try_def Let_def)
  from assms nc1 a nc2 h nc3 nc4 w nc5 nc6 have
    "r = \<lparr>scanData =
       \<lparr>tokenInfo = \<lparr>total_supply = supply_total assetInfo, symbol = asset_symbol assetInfo,
                      name = asset_name assetInfo, decimals = asset_decimals assetInfo,
                      token_address = addr\<rparr>,
        analyzedWallets = analyzed,
        teamWallets = map (teamWallet (supply_total assetInfo))
                        (filter (\<lambda>w. isTeamWalletCategory (category w)) analyzed),
        totalSupplyControlled = supplyControlled (supply_total assetInfo) analyzed,
        tokenAddress = addr\<rparr>,
      trackingInfo =
       \<lparr>tracking_tokenAddress = addr,
        tokenSymbol = asset_symbol assetInfo,
        tracking_totalSupply = supply_total assetInfo,
        tracking_decimals = asset_decimals assetInfo,
        tracking_totalSupplyControlled = supplyControlled (supply_total assetInfo) analyzed,
        tracking_teamWallets = map (teamWallet (supply_total assetInfo))
                        (filter (\<lambda>w. isTeamWalletCategory (category w)) analyzed),
        allWalletsDetails = analyzed\<rparr>\<rparr>"
    by (simp add: analyzeTeamSupply_try_def Let_def)
  then have "scanData r = \<lparr>tokenInfo = \<lparr>total_supply = supply_total assetInfo, symbol = asset_symbol assetInfo,
                      name = asset_name assetInfo, decimals = asset_decimals assetInfo,
                      token_address = addr\<rparr>,
        analyzedWallets = analyzed,
        teamWallets = map (teamWallet (supply_total assetInfo))
                        (filter (\<lambda>w. isTeamWalletCategory (category w)) analyzed),
        totalSupplyControlled = supplyControlled (supply_total assetInfo) analyzed,
        tokenAddress = addr\<rparr>"
    and "trackingInfo r =
       \<lparr>tracking_tokenAddress = addr,
        tokenSymbol = asset_symbol assetInfo,
        tracking_totalSupply = supply_total assetInfo,
        tracking_decimals = asset_decimals assetInfo,
        tracking_totalSupplyControlled = supplyControlled (supply_total assetInfo) analyzed,
        tracking_teamWallets = map (teamWallet (supply_total assetInfo))
                        (filter (\<lambda>w. isTeamWalletCategory (category w)) analyzed),
        allWalletsDetails = analyzed\<rparr>"
    by simp_all
  with that a h w nc1 nc2 nc3 nc4 nc5 nc6 show thesis
    by blast
qed

lemma analyzeTeamSupply_Inr:
  "analyzeTeamSupply env addr ct = Inr r \<longleftrightarrow> analyzeTeamSupply_try env addr ct = Inr r"
  by (simp add: analyzeTeamSupply_def split: sum.splits)

lemma foldl_plus_bn:
  "foldl (\<lambda>total wallet. plus_bn total (BN (of_int (balance wallet)))) (BN a) ws =
     BN (a + of_int (sum_list (map balance ws)))"
  by (induction ws arbitrary: a) (simp_all add: add.assoc)

lemma teamSupplyHeld_sum:
  "teamSupplyHeld ws =
     BN (of_int (sum_list (map balance (filter (\<lambda>w. isTeamWalletCategory (category w)) ws))))"
  by (simp add: teamSupplyHeld_def foldl_plus_bn)

lemma toDouble_100: "toDouble 100 = Num 100"
proof -
  have e: "binaryExponent \<bar>100\<bar> = 6"
    by (simp add: binaryExponent_def bitLength.simps)
  have u: "pow2 (max 6 (- 1022) - 52) = 1 / 70368744177664"
    by (simp add: pow2_def)
  have m: "roundHalfEven (\<bar>100\<bar> / (1 / 70368744177664)) = 7036874417766400"
    by (simp add: roundHalfEven_def Let_def)
  have b: "\<not> pow2 1024 \<le> 100"
    by (simp add: pow2_def)
  show ?thesis
    unfolding toDouble_def Let_def e u m using b by simp
qed

lemma ROUND_DOWN_exact:
  assumes "t \<noteq> 0" and "t dvd s * 10 ^ 18"
  shows "ROUND_DOWN (of_int s / of_int t) = of_int s / of_int t"
proof -
  from assms(2) obtain k where k: "s * 10 ^ 18 = t * k" ..
  have "(of_int (s * 10 ^ 18) :: rat) = of_int (t * k)"
    by (simp only: k)
  then have "(of_int s * 10 ^ 18 :: rat) = of_int t * of_int k"
    by simp
  then have y: "(of_int s / of_int t * 10 ^ 18 :: rat) = of_int k"
    using assms(1) by (simp add: field_simps)
  have "truncate_int (of_int k) = k"
    by (simp add: truncate_int_def)
  with y have "ROUND_DOWN (of_int s / of_int t) = of_int k / 10 ^ 18"
    by (simp add: ROUND_DOWN_def DECIMAL_PLACES_def)
  also have "\<dots> = of_int s / of_int t"
    using y [symmetric] by simp
  finally show ?thesis .
qed

lemma isTeamWalletCategory_iff:
  "isTeamWalletCategory c \<longleftrightarrow> c \<in> {''Fresh'', ''Inactive'', ''No Token'', ''No ATA Transaction''}"
  unfolding isTeamWalletCategory_def TEAM_WALLET_CATEGORIES_def by (simp only: list.set)

lemma supplyControlled_spec:
  "supplyControlled t ws =
     toNumber (multipliedBy (dividedBy (BN (of_int (spec_teamBalance ws))) (BN (of_int t))) (BN 100))"
  by (simp only: supplyControlled_def teamSupplyHeld_sum spec_teamBalance_def isTeamWalletCategory_iff)

lemma example_significant: "significantHolders 3 threeHolders = threeHolders"
  by (simp add: threeHolders_def significantHolders_def significantHolder_iff KNOWN_LP_POOLS_def)

lemma example_analyzed:
  "analyzeWalletsWithTimeout (\<lambda>k. freshOracles) None ''Token'' threeHolders = Inr threeFreshWallets"
  by code_simp

lemma example_team:
  "filter (\<lambda>w. isTeamWalletCategory (category w)) threeFreshWallets = threeFreshWallets"
  by (simp add: threeFreshWallets_def threeHolders_def isTeamWalletCategory_def
      TEAM_WALLET_CATEGORIES_def classified_def)

lemma example_run:
  "\<exists>r. analyzeTeamSupply exampleEnv ''Token'' None = Inr r
      \<and> total_supply (tokenInfo (scanData r)) = 3
      \<and> analyzedWallets (scanData r) = threeFreshWallets"
proof -
  have "analyzeTeamSupply_try exampleEnv ''Token'' None =
     Inr \<lparr>scanData =
           \<lparr>tokenInfo = \<lparr>total_supply = 3, symbol = ''TKN'', name = ''Token'', decimals = 6,
                          token_address = ''Token''\<rparr>,
            analyzedWallets = threeFreshWallets,
            teamWallets = map (teamWallet 3) threeFreshWallets,
            totalSupplyControlled = supplyControlled 3 threeFreshWallets,
            tokenAddress = ''Token''\<rparr>,
          trackingInfo =
           \<lparr>tracking_tokenAddress = ''Token'', tokenSymbol = ''TKN'', tracking_totalSupply = 3,
            tracking_decimals = 6,
            tracking_totalSupplyControlled = supplyControlled 3 threeFreshWallets,
            tracking_teamWallets = map (teamWallet 3) threeFreshWallets,
            allWalletsDetails = threeFreshWallets\<rparr>\<rparr>"
    unfolding analyzeTeamSupply_try_def exampleEnv_def
    apply (simp add: isCancelled_def example_significant example_analyzed example_team)
    apply (simp only: Let_def)
    done
  then show ?thesis
    by (simp add: analyzeTeamSupply_def)
qed

lemma analyzeBatches_Inr_polls:
  assumes "analyzeBatches oracles ct ta wallets i acc = Inr out"
    and "i \<le> b" and "b < length wallets" and "BATCH_SIZE dvd (b - i)"
  shows "\<not> isCancelled ct (BeforeBatch b)"
  using assms
proof (induction oracles ct ta wallets i acc rule: analyzeBatches.induct)
  case (1 oracles ct ta wallets i acc)
  from "1.prems"(2,3) have lt: "i < length wallets"
    by simp
  with "1.prems"(1) obtain rs where
    nc: "\<not> isCancelled ct (BeforeBatch i)" and
    b: "analyzeBatch oracles ct ta wallets i = Inr rs" and
    rec: "analyzeBatches oracles ct ta wallets (i + BATCH_SIZE) (acc @ rs) = Inr out"
    by (subst (asm) analyzeBatches.simps) (auto split: if_splits sum.splits)
  show ?case
  proof (cases "b = i")
    case True
    with nc show ?thesis by simp
  next
    case False
    with "1.prems"(2) have pos: "0 < b - i"
      by simp
    with "1.prems"(4) have "BATCH_SIZE \<le> b - i"
      by (simp add: dvd_imp_le)
    then have le: "i + BATCH_SIZE \<le> b"
      using "1.prems"(2) by simp
    from "1.prems"(4) have "BATCH_SIZE dvd (b - i - BATCH_SIZE)"
      using dvd_diff_nat [of BATCH_SIZE "b - i" BATCH_SIZE] by simp
    then have "BATCH_SIZE dvd (b - (i + BATCH_SIZE))"
      by (simp only: diff_diff_left)
    with "1.IH" [OF lt nc b rec le "1.prems"(3)] show ?thesis .
  qed
qed

lemma analyzeWalletsWithTimeout_Inr_polls:
  assumes "analyzeWalletsWithTimeout oracles ct ta wallets = Inr out" and "k < length out"
  shows "\<not> isCancelled ct (BeforeWallet k)"
    and "BATCH_SIZE dvd k \<Longrightarrow> \<not> isCancelled ct (BeforeBatch k)"
proof -
  from assms analyzeWalletsWithTimeout_Inr(1) [OF assms(1)] have k: "k < length wallets"
    by simp
  from analyzeWalletsWithTimeout_Inr(2) [OF assms(1) k]
  show "\<not> isCancelled ct (BeforeWallet k)"
    by (auto simp: analyzeWalletWithTimeout_def)
  assume "BATCH_SIZE dvd k"
  with analyzeBatches_Inr_polls [of oracles ct ta wallets 0 "[]" out k] assms(1) k
  show "\<not> isCancelled ct (BeforeBatch k)"
    by (simp add: analyzeWalletsWithTimeout_def)
qed

lemma analyzeTeamSupply_try_analyzed:
  assumes "analyzeTeamSupply_try env addr ct = Inr r"
  shows "\<exists>(assetInfo :: AssetInfo) (allHolders :: Holder list).
           analyzeWalletsWithTimeout (oraclesOf env) ct addr
             (significantHolders (supply_total assetInfo) allHolders) =
           Inr (analyzedWallets (scanData r))"
proof (rule analyzeTeamSupply_try_Inr [OF assms])
  fix assetInfo :: AssetInfo and allHolders :: "Holder list" and analyzed
  assume "analyzeWalletsWithTimeout (oraclesOf env) ct addr
       (significantHolders (supply_total assetInfo) allHolders) = Inr analyzed"
    and "scanData r =
       \<lparr>tokenInfo = \<lparr>total_supply = supply_total assetInfo, symbol = asset_symbol assetInfo,
                      name = asset_name assetInfo, decimals = asset_decimals assetInfo,
                      token_address = addr\<rparr>,
        analyzedWallets = analyzed,
        teamWallets = map (teamWallet (supply_total assetInfo))
                        (filter (\<lambda>w. isTeamWalletCategory (category w)) analyzed),
        totalSupplyControlled = supplyControlled (supply_total assetInfo) analyzed,
        tokenAddress = addr\<rparr>"
  then have "analyzeWalletsWithTimeout (oraclesOf env) ct addr
       (significantHolders (supply_total assetInfo) allHolders) = Inr (analyzedWallets (scanData r))"
    by simp
  then show ?thesis
    by blast
qed

lemma Promise_all_Inl: "Promise_all ps = Inl e \<Longrightarrow> Inl e \<in> set ps"
proof (induction ps)
  case Nil
  then show ?case by simp
next
  case (Cons p ps)
  then show ?case
    by (cases p) (auto split: sum.splits)
qed

lemma analyzeWalletWithTimeout_Inl:
  "analyzeWalletWithTimeout oracles ct ta w k = Inl e \<Longrightarrow> e = cancelled_by_user"
  by (simp add: analyzeWalletWithTimeout_def split: if_splits outcome.splits)

lemma analyzeBatch_Inl:
  assumes "analyzeBatch oracles ct ta wallets i = Inl e"
  shows "e = cancelled_by_user"
proof -
  from assms have "Inl e \<in> set (map (\<lambda>(wallet, batchIndex).
                   analyzeWalletWithTimeout (oracles (i + batchIndex)) ct ta wallet (i + batchIndex))
              (zip (take BATCH_SIZE (drop i wallets))
                 [0..<length (take BATCH_SIZE (drop i wallets))]))"
    unfolding analyzeBatch_def Let_def by (rule Promise_all_Inl)
  then obtain w k where "analyzeWalletWithTimeout (oracles (i + k)) ct ta w (i + k) = Inl e"
    by (auto simp del: length_take)
  then show ?thesis
    by (rule analyzeWalletWithTimeout_Inl)
qed

lemma analyzeBatches_Inl:
  assumes "analyzeBatches oracles ct ta wallets i acc = Inl e"
  shows "e = cancelled_by_user"
  using assms
proof (induction oracles ct ta wallets i acc rule: analyzeBatches.induct)
  case (1 oracles ct ta wallets i acc)
  from "1.prems" have lt: "i < length wallets"
    by (subst (asm) analyzeBatches.simps) (simp split: if_splits)
  show ?case
  proof (cases "isCancelled ct (BeforeBatch i)")
    case True
    with lt "1.prems" show ?thesis
      by (subst (asm) analyzeBatches.simps) simp
  next
    case False
    show ?thesis
    proof (cases "analyzeBatch oracles ct ta wallets i")
      case (Inl e')
      with lt False "1.prems" have "e' = e"
        by (subst (asm) analyzeBatches.simps) simp
      with Inl analyzeBatch_Inl show ?thesis
        by blast
    next
      case (Inr rs)
      with lt False "1.prems"
      have "analyzeBatches oracles ct ta wallets (i + BATCH_SIZE) (acc @ rs) = Inl e"
        by (subst (asm) analyzeBatches.simps) simp
      with "1.IH" [OF lt False Inr] show ?thesis .
    qed
  qed
qed

lemma analyzeTeamSupply_try_Inl:
  assumes "analyzeTeamSupply_try env addr ct = Inl e"
    and "getAsset env = Inr (Some a)" and "getHolders env = Inr hs"
  shows "e = cancelled_by_user"
proof (cases "analyzeWalletsWithTimeout (oraclesOf env) ct addr
                (significantHolders (supply_total a) hs)")
  case (Inl e')
  then have "e' = cancelled_by_user"
    unfolding analyzeWalletsWithTimeout_def by (rule analyzeBatches_Inl)
  with assms Inl show ?thesis
    by (simp add: analyzeTeamSupply_try_def Let_def split: if_splits)
next
  case (Inr analyzed)
  with assms show ?thesis
    by (simp add: analyzeTeamSupply_try_def Let_def split: if_splits)
qed

lemma analyzeTeamSupply_Inl:
  assumes "analyzeTeamSupply env addr ct = Inl e"
    and "getAsset env = Inr (Some a)" and "getHolders env = Inr hs"
  shows "e = cancelled_by_user"
proof (cases "analyzeTeamSupply_try env addr ct")
  case (Inl e')
  with analyzeTeamSupply_try_Inl [OF Inl assms(2,3)] assms(1) show ?thesis
    by (simp add: analyzeTeamSupply_def split: if_splits)
next
  case (Inr r)
  with assms(1) show ?thesis
    by (simp add: analyzeTeamSupply_def)
qed

lemma permanent_last_polls:
  assumes "cancellationIsPermanent token" and "token p" and "p \<noteq> OnError"
  shows "token BeforeSupply" and "token OnError"
proof -
  from assms(1,2) show "token OnError"
    using assms(3) unfolding cancellationIsPermanent_def
    by (cases p) (auto dest: spec [of _ p] simp: )
  show "token BeforeSupply"
  proof (cases "p = BeforeSupply")
    case True
    with assms(2) show ?thesis by simp
  next
    case False
    with assms(3) have "phase p < phase BeforeSupply"
      by (cases p) simp_all
    with assms(1,2) show ?thesis
      unfolding cancellationIsPermanent_def by blast
  qed
qed

lemma cancelledAfterSecondBatch_permanent: "cancellationIsPermanent cancelledAfterSecondBatch"
  unfolding cancellationIsPermanent_def
proof (intro allI impI)
  fix p q
  assume lt: "phase p < phase q" and p: "cancelledAfterSecondBatch p"
  from p have "4 \<le> phase p"
    by (cases p) (simp_all add: cancelledAfterSecondBatch_def)
  with lt have "4 < phase q"
    by simp
  then show "cancelledAfterSecondBatch q"
    by (cases q) (simp_all add: cancelledAfterSecondBatch_def)
qed

text \<open>
  C9. In a run that returns a result, both views hold the same array of analyzed wallets,
  the same team wallets and the same percentage; the team wallets and the percentage are
  computed from that one array.
\<close>

theorem views_agree:
  assumes "analyzeTeamSupply env addr ct = Inr r"
  shows "allWalletsDetails (trackingInfo r) = analyzedWallets (scanData r)
       \<and> tracking_teamWallets (trackingInfo r) = teamWallets (scanData r)
       \<and> tracking_totalSupplyControlled (trackingInfo r) = totalSupplyControlled (scanData r)
       \<and> teamWallets (scanData r) =
           map (teamWallet (total_supply (tokenInfo (scanData r))))
             (filter (\<lambda>w. isTeamWalletCategory (category w)) (analyzedWallets (scanData r)))
       \<and> totalSupplyControlled (scanData r) =
           supplyControlled (total_supply (tokenInfo (scanData r))) (analyzedWallets (scanData r))"
proof -
  from assms have "analyzeTeamSupply_try env addr ct = Inr r"
    by (simp add: analyzeTeamSupply_Inr)
  then show ?thesis
    by (rule analyzeTeamSupply_try_Inr) simp
qed

theorem views_agree_witness:
  "\<exists>r. analyzeTeamSupply exampleEnv ''Token'' None = Inr r
      \<and> allWalletsDetails (trackingInfo r) = threeFreshWallets
      \<and> analyzedWallets (scanData r) = threeFreshWallets
      \<and> tracking_teamWallets (trackingInfo r) = teamWallets (scanData r)
      \<and> tracking_totalSupplyControlled (trackingInfo r) = totalSupplyControlled (scanData r)"
proof -
  from example_run obtain r where run: "analyzeTeamSupply exampleEnv ''Token'' None = Inr r"
    and ws: "analyzedWallets (scanData r) = threeFreshWallets"
    by blast
  from views_agree [OF run] ws have "allWalletsDetails (trackingInfo r) = threeFreshWallets"
    and "tracking_teamWallets (trackingInfo r) = teamWallets (scanData r)"
    and "tracking_totalSupplyControlled (trackingInfo r) = totalSupplyControlled (scanData r)"
    by simp_all
  with run ws show ?thesis
    by (intro exI [of _ r] conjI)
qed

text \<open>
  C1. In a run that returns a result, \<^verbatim>\<open>totalSupplyControlled\<close> is the number that
  \<^verbatim>\<open>toNumber\<close> gives for 100 times the quotient of the team balance by the total supply,
  both operations being those of the decimal library: the quotient is cut to 18 fractional
  digits, the product is exact, no floating-point operation precedes the final conversion.
  Whenever the quotient has no more than 18 fractional digits, that is the number for
  100 times team balance over total supply itself. For a total supply of 3 and three team
  wallets of balance 1 it is exactly 100. The total supply is the one \<^verbatim>\<open>getAsset\<close> reported.
\<close>

theorem supply_controlled_formula:
  assumes "analyzeTeamSupply env addr ct = Inr r"
  shows "totalSupplyControlled (scanData r) =
           toNumber (multipliedBy
             (dividedBy (BN (of_int (spec_teamBalance (analyzedWallets (scanData r)))))
                (BN (of_int (total_supply (tokenInfo (scanData r))))))
             (BN 100))
       \<and> (total_supply (tokenInfo (scanData r)) \<noteq> 0
          \<and> total_supply (tokenInfo (scanData r))
              dvd spec_teamBalance (analyzedWallets (scanData r)) * 10 ^ 18 \<longrightarrow>
            totalSupplyControlled (scanData r) =
              toDouble (100 * of_int (spec_teamBalance (analyzedWallets (scanData r)))
                          / of_int (total_supply (tokenInfo (scanData r)))))
       \<and> (total_supply (tokenInfo (scanData r)) = 3
          \<and> map balance
               (filter (\<lambda>w. category w \<in> {''Fresh'', ''Inactive'', ''No Token'', ''No ATA Transaction''})
                  (analyzedWallets (scanData r))) = [1, 1, 1] \<longrightarrow>
            totalSupplyControlled (scanData r) = Num 100)
       \<and> (\<forall>a. getAsset env = Inr (Some a) \<longrightarrow> total_supply (tokenInfo (scanData r)) = supply_total a)"
proof -
  let ?s = "spec_teamBalance (analyzedWallets (scanData r))"
  let ?t = "total_supply (tokenInfo (scanData r))"
  from assms have body: "analyzeTeamSupply_try env addr ct = Inr r"
    by (simp add: analyzeTeamSupply_Inr)
  have c: "totalSupplyControlled (scanData r) = supplyControlled ?t (analyzedWallets (scanData r))"
    using body by (rule analyzeTeamSupply_try_Inr) simp
  then have f: "totalSupplyControlled (scanData r) =
      toNumber (multipliedBy (dividedBy (BN (of_int ?s)) (BN (of_int ?t))) (BN 100))"
    by (simp only: supplyControlled_spec)
  have exact: "totalSupplyControlled (scanData r) = toDouble (100 * of_int ?s / of_int ?t)"
    if "?t \<noteq> 0" and "?t dvd ?s * 10 ^ 18"
  proof -
    from that have "dividedBy (BN (of_int ?s)) (BN (of_int ?t)) = BN (of_int ?s / of_int ?t)"
      by (simp add: ROUND_DOWN_exact)
    with f show ?thesis
      by (simp add: mult.commute)
  qed
  have three: "totalSupplyControlled (scanData r) = Num 100"
    if "?t = 3" and "map balance
               (filter (\<lambda>w. category w \<in> {''Fresh'', ''Inactive'', ''No Token'', ''No ATA Transaction''})
                  (analyzedWallets (scanData r))) = [1, 1, 1]"
  proof -
    from that(2) have "?s = 3"
      by (simp add: spec_teamBalance_def)
    with that(1) exact have "totalSupplyControlled (scanData r) = toDouble (100 * of_int 3 / of_int 3)"
      by simp
    then show ?thesis
      by (simp add: toDouble_100)
  qed
  have asset: "?t = supply_total a" if "getAsset env = Inr (Some a)" for a
    by (rule analyzeTeamSupply_try_Inr [OF body]) (simp add: that)
  show ?thesis
    using f exact three asset by (intro conjI impI allI) simp_all
qed

theorem supply_controlled_formula_witness:
  "\<exists>r. analyzeTeamSupply exampleEnv ''Token'' None = Inr r
      \<and> total_supply (tokenInfo (scanData r)) = 3
      \<and> map category (analyzedWallets (scanData r)) = [''Fresh'', ''Fresh'', ''Fresh'']
      \<and> map balance (analyzedWallets (scanData r)) = [1, 1, 1]
      \<and> totalSupplyControlled (scanData r) = Num 100"
proof -
  from example_run obtain r where run: "analyzeTeamSupply exampleEnv ''Token'' None = Inr r"
    and t: "total_supply (tokenInfo (scanData r)) = 3"
    and ws: "analyzedWallets (scanData r) = threeFreshWallets"
    by blast
  from ws have c: "map category (analyzedWallets (scanData r)) = [''Fresh'', ''Fresh'', ''Fresh'']"
    and b: "map balance (analyzedWallets (scanData r)) = [1, 1, 1]"
    and f: "map balance
               (filter (\<lambda>w. category w \<in> {''Fresh'', ''Inactive'', ''No Token'', ''No ATA Transaction''})
                  (analyzedWallets (scanData r))) = [1, 1, 1]"
    by (simp_all add: threeFreshWallets_def threeHolders_def classified_def)
  from t f have "total_supply (tokenInfo (scanData r)) = 3
          \<and> map balance
               (filter (\<lambda>w. category w \<in> {''Fresh'', ''Inactive'', ''No Token'', ''No ATA Transaction''})
                  (analyzedWallets (scanData r))) = [1, 1, 1]"
    by (rule conjI)
  with supply_controlled_formula [OF run, THEN conjunct2, THEN conjunct2, THEN conjunct1]
  have "totalSupplyControlled (scanData r) = Num 100"
    by (rule mp)
  with run t c b show ?thesis
    by (intro exI [of _ r] conjI)
qed

text \<open>
  C8. A run rejects when the token info is not available. When cancellation is permanent, a
  run rejects with the cancellation error as soon as the token reports cancelled at any poll
  of the run. Whatever the token, a run that returns a result has seen it not cancelled at
  each of the six checks of \<^verbatim>\<open>analyzeTeamSupply\<close>, before every batch and before every
  wallet; and when token info and holders were delivered, a rejection can only be the
  cancellation error. A rejection never carries a result: the result is a value of the
  other summand.
\<close>

theorem fatal_paths_reject:
  "((\<forall>a. getAsset env \<noteq> Inr (Some a)) \<longrightarrow> (\<exists>e. analyzeTeamSupply env addr ct = Inl e))
   \<and> (cancellationIsPermanent token \<and> token p \<and> p \<noteq> OnError \<longrightarrow>
        analyzeTeamSupply env addr (Some token) = Inl cancelled_by_user)
   \<and> (analyzeTeamSupply env addr ct = Inr r \<longrightarrow>
        \<not> isCancelled ct RunStart \<and> \<not> isCancelled ct AfterTokenInfo
        \<and> \<not> isCancelled ct AfterHolders \<and> \<not> isCancelled ct AfterFilter
        \<and> \<not> isCancelled ct BeforeTeamFilter \<and> \<not> isCancelled ct BeforeSupply
        \<and> (\<forall>k<length (analyzedWallets (scanData r)).
              \<not> isCancelled ct (BeforeWallet k)
              \<and> (BATCH_SIZE dvd k \<longrightarrow> \<not> isCancelled ct (BeforeBatch k))))
   \<and> (getAsset env = Inr (Some a) \<and> getHolders env = Inr hs
        \<and> analyzeTeamSupply env addr ct = Inl e \<longrightarrow> e = cancelled_by_user)"
proof (intro conjI impI)
  assume "\<forall>a. getAsset env \<noteq> Inr (Some a)"
  then have "\<exists>e. analyzeTeamSupply_try env addr ct = Inl e"
    by (simp add: analyzeTeamSupply_try_def split: sum.splits option.splits)
  then show "\<exists>e. analyzeTeamSupply env addr ct = Inl e"
    by (auto simp: analyzeTeamSupply_def)
next
  assume a: "cancellationIsPermanent token \<and> token p \<and> p \<noteq> OnError"
  then have last: "token BeforeSupply" "token OnError"
    using permanent_last_polls [of token p] by simp_all
  have "analyzeTeamSupply_try env addr (Some token) \<noteq> Inr r'" for r'
  proof
    assume "analyzeTeamSupply_try env addr (Some token) = Inr r'"
    then have "\<not> isCancelled (Some token) BeforeSupply"
      by (rule analyzeTeamSupply_try_Inr)
    with last(1) show False
      by (simp add: isCancelled_def)
  qed
  then obtain e where "analyzeTeamSupply_try env addr (Some token) = Inl e"
    by (cases "analyzeTeamSupply_try env addr (Some token)") auto
  with last(2) show "analyzeTeamSupply env addr (Some token) = Inl cancelled_by_user"
    by (simp add: analyzeTeamSupply_def isCancelled_def)
next
  assume "analyzeTeamSupply env addr ct = Inr r"
  then have body: "analyzeTeamSupply_try env addr ct = Inr r"
    by (simp add: analyzeTeamSupply_Inr)
  from body show "\<not> isCancelled ct RunStart" by (rule analyzeTeamSupply_try_Inr)
  from body show "\<not> isCancelled ct AfterTokenInfo" by (rule analyzeTeamSupply_try_Inr)
  from body show "\<not> isCancelled ct AfterHolders" by (rule analyzeTeamSupply_try_Inr)
  from body show "\<not> isCancelled ct AfterFilter" by (rule analyzeTeamSupply_try_Inr)
  from body show "\<not> isCancelled ct BeforeTeamFilter" by (rule analyzeTeamSupply_try_Inr)
  from body show "\<not> isCancelled ct BeforeSupply" by (rule analyzeTeamSupply_try_Inr)
  from analyzeTeamSupply_try_analyzed [OF body]
  obtain assetInfo :: AssetInfo and allHolders :: "Holder list" where
    w: "analyzeWalletsWithTimeout (oraclesOf env) ct addr
       (significantHolders (supply_total assetInfo) allHolders) = Inr (analyzedWallets (scanData r))"
    by blast
  show "\<forall>k<length (analyzedWallets (scanData r)).
              \<not> isCancelled ct (BeforeWallet k)
              \<and> (BATCH_SIZE dvd k \<longrightarrow> \<not> isCancelled ct (BeforeBatch k))"
    using analyzeWalletsWithTimeout_Inr_polls [OF w] by simp
next
  assume "getAsset env = Inr (Some a) \<and> getHolders env = Inr hs
        \<and> analyzeTeamSupply env addr ct = Inl e"
  then show "e = cancelled_by_user"
    using analyzeTeamSupply_Inl [of env addr ct e a hs] by blast
qed

theorem fatal_paths_reject_witness:
  "getAsset unknownTokenEnv = Inr None
   \<and> analyzeTeamSupply unknownTokenEnv ''Token'' None = Inl ''No token info found''
   \<and> cancellationIsPermanent cancelledAfterSecondBatch
   \<and> cancelledAfterSecondBatch (BeforeBatch 10)
   \<and> analyzeTeamSupply twentyHoldersEnv ''Token'' (Some cancelledAfterSecondBatch) =
       Inl ''Analysis cancelled by user''
   \<and> (\<exists>r. analyzeTeamSupply exampleEnv ''Token'' None = Inr r
         \<and> \<not> isCancelled None (BeforeBatch 0))"
proof -
  have a: "getAsset unknownTokenEnv = Inr None"
    by (simp add: unknownTokenEnv_def)
  have b: "analyzeTeamSupply unknownTokenEnv ''Token'' None = Inl ''No token info found''"
    by (simp add: analyzeTeamSupply_def analyzeTeamSupply_try_def unknownTokenEnv_def isCancelled_def)
  have c: "cancelledAfterSecondBatch (BeforeBatch 10)"
    by (simp add: cancelledAfterSecondBatch_def)
  from fatal_paths_reject [of twentyHoldersEnv "''Token''" _ cancelledAfterSecondBatch "BeforeBatch 10"]
    cancelledAfterSecondBatch_permanent c
  have d: "analyzeTeamSupply twentyHoldersEnv ''Token'' (Some cancelledAfterSecondBatch) =
       Inl ''Analysis cancelled by user''"
    by (simp add: cancelled_by_user_def)
  from example_run obtain r where r: "analyzeTeamSupply exampleEnv ''Token'' None = Inr r"
    by blast
  have "\<not> isCancelled None (BeforeBatch 0)"
    by (simp add: isCancelled_def)
  with a b c d r cancelledAfterSecondBatch_permanent show ?thesis
    by blast
qed

end
